theory Spec2Isabelle
  imports Complex_Main "HOL-Library.Word"
begin

section \<open>JavaScript strings\<close>

text \<open>
  A JavaScript string is a sequence of UTF-16 code units. The regular expressions of the
  source carry no \<^verbatim>\<open>u\<close> flag, so they too work on code units. ASCII literals are
  written with \<open>js\<close>; the Chinese literals of the source are written as code units.
\<close>

type_synonym jschar = "16 word"
type_synonym jsstring = "jschar list"

definition js :: "string \<Rightarrow> jsstring" where
  "js s = map of_char s"

text \<open>The class \<^verbatim>\<open>\s\<close> of a regular expression, which is also what \<^verbatim>\<open>trim()\<close> strips:
  tab, line feed, vertical tab, form feed, carriage return, space, no-break space, U+1680,
  U+2000..U+200A, U+2028, U+2029, U+202F, U+205F, U+3000 and U+FEFF.\<close>

definition isSpace :: "jschar \<Rightarrow> bool" where
  "isSpace c \<longleftrightarrow>
     c = 0x09 \<or> c = 0x0A \<or> c = 0x0B \<or> c = 0x0C \<or> c = 0x0D \<or> c = 0x20 \<or> c = 0xA0 \<or>
     c = 0x1680 \<or> (0x2000 \<le> c \<and> c \<le> 0x200A) \<or> c = 0x2028 \<or> c = 0x2029 \<or>
     c = 0x202F \<or> c = 0x205F \<or> c = 0x3000 \<or> c = 0xFEFF"

text \<open>The characters that \<^verbatim>\<open>.\<close> does not match.\<close>

definition isLineTerminator :: "jschar \<Rightarrow> bool" where
  "isLineTerminator c \<longleftrightarrow> c = 0x0A \<or> c = 0x0D \<or> c = 0x2028 \<or> c = 0x2029"

text \<open>\<^verbatim>\<open>s.replace(/[...]/g, r)\<close> for a class of single characters.\<close>

definition replaceEach :: "(jschar \<Rightarrow> bool) \<Rightarrow> jschar \<Rightarrow> jsstring \<Rightarrow> jsstring" where
  "replaceEach cls r s = map (\<lambda>c. if cls c then r else c) s"

text \<open>\<^verbatim>\<open>s.replace(/\s+/g, ' ')\<close>: every maximal run of white space becomes one space.\<close>

function replaceSpaceRuns :: "jsstring \<Rightarrow> jsstring" where
  "replaceSpaceRuns [] = []"
| "replaceSpaceRuns (c # s) =
     (if isSpace c then 0x20 # replaceSpaceRuns (dropWhile isSpace s)
      else c # replaceSpaceRuns s)"
  by pat_completeness auto
termination
  by (relation "measure length") (auto simp: length_dropWhile_le less_Suc_eq_le)

definition trim :: "jsstring \<Rightarrow> jsstring" where
  "trim s = rev (dropWhile isSpace (rev (dropWhile isSpace s)))"

text \<open>\<^verbatim>\<open>s.split(sep)\<close> for a separator of one character; the empty string gives one
  empty segment.\<close>

fun split :: "jschar \<Rightarrow> jsstring \<Rightarrow> jsstring list" where
  "split sep [] = [[]]"
| "split sep (c # s) =
     (if c = sep then [] # split sep s
      else (case split sep s of [] \<Rightarrow> [[c]] | p # ps \<Rightarrow> (c # p) # ps))"

text \<open>\<^verbatim>\<open>toLowerCase()\<close> on the letters A to Z; every other code unit is kept, so the
  function is the built-in one on ASCII strings only.\<close>

definition toLowerCase :: "jsstring \<Rightarrow> jsstring" where
  "toLowerCase s = map (\<lambda>c. if 0x41 \<le> c \<and> c \<le> 0x5A then c + 0x20 else c) s"

text \<open>Truthiness of a value that is a string, \<^verbatim>\<open>null\<close> or \<^verbatim>\<open>undefined\<close>.\<close>

definition truthy :: "jsstring option \<Rightarrow> bool" where
  "truthy v = (case v of None \<Rightarrow> False | Some s \<Rightarrow> s \<noteq> [])"

section \<open>Path Transformer and Name Sanitizer (src/lib/image-uploader.js)\<close>

definition transformPath :: "jsstring \<Rightarrow> jsstring" where
  "transformPath relativePath = replaceEach (\<lambda>c. c = 0x2F) 0x2D relativePath"

definition isReserved :: "jschar \<Rightarrow> bool" where
  "isReserved c \<longleftrightarrow>
     c = 0x23 \<or> c = 0x3F \<or> c = 0x3C \<or> c = 0x3E \<or> c = 0x7C \<or> c = 0x22 \<or> c = 0x5C"

definition sanitizeFileName :: "jsstring \<Rightarrow> jsstring" where
  "sanitizeFileName fileName =
     trim (replaceSpaceRuns (replaceEach isReserved 0x5F
       (replaceEach (\<lambda>c. c = 0x3A) 0x5F fileName)))"

text \<open>The configuration file, as far as the library reads it: \<^verbatim>\<open>upload.maxConcurrency\<close>,
  \<^verbatim>\<open>upload.concurrency\<close>, \<^verbatim>\<open>upload.comment\<close>, \<^verbatim>\<open>wiki.prefix\<close> and
  \<^verbatim>\<open>categoryMapping\<close>. A numeric setting may hold any JavaScript value, of which only
  the finite numbers count; \<open>categoryMapping\<close> is an object with string values, looked up
  by its own keys.\<close>

datatype jsvalue = Undefined | Null | Number real | NaN | PosInfinity | NegInfinity | NonNumber

record upload_config =
  upload_maxConcurrency :: jsvalue
  upload_concurrency :: jsvalue
  upload_comment :: "jsstring option"

record config =
  upload :: "upload_config option"
  wiki_prefix :: "jsstring option"
  categoryMapping :: "(jsstring \<rightharpoonup> jsstring) option"

record categories =
  folder :: "jsstring option"
  folderChinese :: "jsstring option"
  bookId :: "jsstring option"

definition extractCategories :: "jsstring \<Rightarrow> config \<Rightarrow> categories" where
  "extractCategories relativePath cfg =
     (let parts = split 0x2F relativePath;
          mapping = (case categoryMapping cfg of None \<Rightarrow> Map.empty | Some m \<Rightarrow> m);
          result = \<lparr>folder = None, folderChinese = None, bookId = None\<rparr>;
          result = (if length parts \<ge> 2
                    then result\<lparr>folder := Some (parts ! 0),
                                folderChinese :=
                                  (let v = mapping (toLowerCase (parts ! 0))
                                   in if truthy v then v else None)\<rparr>
                    else result);
          result = (if length parts \<ge> 3 then result\<lparr>bookId := Some (parts ! 1)\<rparr> else result)
      in result)"

text \<open>The two Chinese literals: U+63D2 U+56FE is the fixed illustration category.\<close>

definition illustration :: jsstring where
  "illustration = [0x63D2, 0x56FE]"

definition categoryTag :: "jsstring \<Rightarrow> jsstring" where
  "categoryTag name = js ''[[Category:'' @ name @ js '']]''"

definition generateWikiText :: "categories \<Rightarrow> config \<Rightarrow> jsstring" where
  "generateWikiText cats cfg =
     (let parts = [categoryTag illustration];
          parts = (if truthy (bookId cats) then parts @ [categoryTag (the (bookId cats))]
                   else parts);
          parts = (if truthy (folderChinese cats)
                   then parts @ [categoryTag (the (folderChinese cats))]
                   else if truthy (folder cats) then parts @ [categoryTag (the (folder cats))]
                   else parts);
          parts = (if truthy (bookId cats)
                   then parts @ [categoryTag (the (bookId cats) @ illustration)]
                   else parts)
      in concat parts)"

section \<open>Progress Ledger (class ProgressTracker, src/unnamed/part_000)\<close>

text \<open>
  The progress file holds the JSON text of a run state; writing and parsing it back is
  taken to give the same record, so the file is modelled by its parsed content. A write
  to the file system may throw; a method that throws has still done its earlier
  assignments, so every mutating method returns the object after the call together with
  the exception, if any. The clock reading of \<^verbatim>\<open>new Date().toISOString()\<close> is an
  argument.
\<close>

datatype js_error = IOError

text \<open>An entry of \<^verbatim>\<open>failed\<close>, with the fields \<^verbatim>\<open>file\<close>, \<^verbatim>\<open>error\<close> and \<^verbatim>\<open>attempts\<close>.\<close>

record failure =
  fail_file :: jsstring
  fail_error :: jsstring
  fail_attempts :: nat

record rundata =
  taskId :: jsstring
  sourceDir :: jsstring
  startTime :: jsstring
  totalFiles :: nat
  pendingFiles :: "jsstring list"
  completed :: "jsstring list"
  failed :: "failure list"
  lastUpdated :: jsstring

record ProgressTracker =
  filePath :: jsstring
  data :: "rundata option"
  progressFile :: "rundata option"
  progressWritable :: bool

definition ProgressTracker_new :: "jsstring \<Rightarrow> rundata option \<Rightarrow> bool \<Rightarrow> ProgressTracker" where
  "ProgressTracker_new progressFilePath onDisk canWrite =
     \<lparr>filePath = progressFilePath, data = None, progressFile = onDisk,
      progressWritable = canWrite\<rparr>"

definition save :: "ProgressTracker \<Rightarrow> jsstring \<Rightarrow> ProgressTracker \<times> js_error option" where
  "save t now =
     (case data t of
        None \<Rightarrow> (t, None)
      | Some d \<Rightarrow>
          (let t1 = t\<lparr>data := Some (d\<lparr>lastUpdated := now\<rparr>)\<rparr>
           in if progressWritable t1 then (t1\<lparr>progressFile := data t1\<rparr>, None)
              else (t1, Some IOError)))"

text \<open>\<^verbatim>\<open>init\<close>: the task id is the time stamp without the characters \<^verbatim>\<open>-:T.Z\<close>, cut to
  14 characters; \<^verbatim>\<open>path.resolve\<close> is a parameter.\<close>

definition ProgressTracker_init ::
  "(jsstring \<Rightarrow> jsstring) \<Rightarrow> ProgressTracker \<Rightarrow> jsstring \<Rightarrow> jsstring list \<Rightarrow> jsstring \<Rightarrow> jsstring
     \<Rightarrow> ProgressTracker \<times> js_error option" where
  "ProgressTracker_init pathResolve t srcDir files now now2 =
     save (t\<lparr>data := Some
        \<lparr>taskId = take 14 (filter (\<lambda>c. c \<notin> set (js ''-:T.Z'')) now),
         sourceDir = pathResolve srcDir,
         startTime = now,
         totalFiles = length files,
         pendingFiles = files,
         completed = [],
         failed = [],
         lastUpdated = now\<rparr>\<rparr>) now2"

definition ProgressTracker_load :: "ProgressTracker \<Rightarrow> ProgressTracker" where
  "ProgressTracker_load t =
     (case progressFile t of None \<Rightarrow> t | Some d \<Rightarrow> t\<lparr>data := Some d\<rparr>)"

text \<open>\<^verbatim>\<open>findIndex\<close> followed by \<^verbatim>\<open>splice(i, 1)\<close>: the first element that satisfies the
  test is removed. For \<^verbatim>\<open>indexOf\<close> and \<^verbatim>\<open>splice\<close> this is \<open>remove1\<close>.\<close>

fun removeFirst :: "('a \<Rightarrow> bool) \<Rightarrow> 'a list \<Rightarrow> 'a list" where
  "removeFirst P [] = []"
| "removeFirst P (x # xs) = (if P x then xs else x # removeFirst P xs)"

text \<open>The object that \<^verbatim>\<open>find\<close> returns is updated in place: the first element that
  satisfies the test changes.\<close>

fun updateFirst :: "('a \<Rightarrow> bool) \<Rightarrow> ('a \<Rightarrow> 'a) \<Rightarrow> 'a list \<Rightarrow> 'a list" where
  "updateFirst P g [] = []"
| "updateFirst P g (x # xs) = (if P x then g x # xs else x # updateFirst P g xs)"

definition markCompleted ::
  "ProgressTracker \<Rightarrow> jsstring \<Rightarrow> jsstring \<Rightarrow> ProgressTracker \<times> js_error option" where
  "markCompleted t targetName now =
     (case data t of
        None \<Rightarrow> (t, None)
      | Some d \<Rightarrow>
          save (t\<lparr>data := Some (d
            \<lparr>pendingFiles := remove1 targetName (pendingFiles d),
             completed := (if targetName \<in> set (completed d) then completed d
                           else completed d @ [targetName]),
             failed := removeFirst (\<lambda>f. fail_file f = targetName) (failed d)\<rparr>)\<rparr>) now)"

definition markFailed ::
  "ProgressTracker \<Rightarrow> jsstring \<Rightarrow> jsstring \<Rightarrow> nat \<Rightarrow> jsstring
     \<Rightarrow> ProgressTracker \<times> js_error option" where
  "markFailed t targetName err n now =
     (case data t of
        None \<Rightarrow> (t, None)
      | Some d \<Rightarrow>
          save (t\<lparr>data := Some (d
            \<lparr>pendingFiles := remove1 targetName (pendingFiles d),
             failed :=
               (case find (\<lambda>f. fail_file f = targetName) (failed d) of
                  Some existing \<Rightarrow>
                    updateFirst (\<lambda>f. fail_file f = targetName)
                      (\<lambda>f. f\<lparr>fail_error := err, fail_attempts := n\<rparr>) (failed d)
                | None \<Rightarrow> failed d @ [\<lparr>fail_file = targetName, fail_error = err, fail_attempts = n\<rparr>])\<rparr>)\<rparr>)
            now)"

definition getPendingFiles :: "ProgressTracker \<Rightarrow> jsstring list" where
  "getPendingFiles t = (case data t of None \<Rightarrow> [] | Some d \<Rightarrow> pendingFiles d)"

definition getFailedFiles :: "ProgressTracker \<Rightarrow> jsstring list" where
  "getFailedFiles t = (case data t of None \<Rightarrow> [] | Some d \<Rightarrow> map fail_file (failed d))"

record stats =
  stats_taskId :: jsstring
  stats_total :: nat
  stats_completed :: nat
  stats_failed :: nat
  stats_pending :: nat

definition getStats :: "ProgressTracker \<Rightarrow> stats option" where
  "getStats t =
     (case data t of
        None \<Rightarrow> None
      | Some d \<Rightarrow> Some \<lparr>stats_taskId = taskId d, stats_total = totalFiles d,
                        stats_completed = length (completed d),
                        stats_failed = length (failed d),
                        stats_pending = length (pendingFiles d)\<rparr>)"

definition isComplete :: "ProgressTracker \<Rightarrow> bool" where
  "isComplete t =
     (case data t of None \<Rightarrow> False | Some d \<Rightarrow> pendingFiles d = [] \<and> failed d = [])"

text \<open>
  Retry admission is the retry-failed branch of \<^verbatim>\<open>main\<close> in
  src/tools/batch-upload-images.js, after the progress file has been loaded: every failed
  name that is not pending is pushed to the pending list, the failure records are
  dropped, and the state is saved.
\<close>

definition retryFailedAdmission ::
  "ProgressTracker \<Rightarrow> jsstring \<Rightarrow> ProgressTracker \<times> js_error option" where
  "retryFailedAdmission t now =
     (case data t of
        None \<Rightarrow> (t, None)
      | Some d \<Rightarrow>
          save (t\<lparr>data := Some (d
            \<lparr>pendingFiles :=
               fold (\<lambda>f pending. if f \<in> set pending then pending else pending @ [f])
                 (getFailedFiles t) (pendingFiles d),
             failed := []\<rparr>)\<rparr>) now)"

text \<open>A sequence of ledger operations, each with the clock reading of its save. A caller
  may go on after an exception, so the run keeps the object and drops the exception.\<close>

datatype ledger_op =
    MarkCompleted jsstring
  | MarkFailed jsstring jsstring nat
  | RetryAdmission

fun applyOp :: "ProgressTracker \<Rightarrow> ledger_op \<times> jsstring \<Rightarrow> ProgressTracker" where
  "applyOp t (MarkCompleted name, now) = fst (markCompleted t name now)"
| "applyOp t (MarkFailed name err n, now) = fst (markFailed t name err n now)"
| "applyOp t (RetryAdmission, now) = fst (retryFailedAdmission t now)"

fun applyOps :: "ProgressTracker \<Rightarrow> (ledger_op \<times> jsstring) list \<Rightarrow> ProgressTracker" where
  "applyOps t [] = t"
| "applyOps t (op # ops) = applyOps (applyOp t op) ops"

text \<open>The names in the completed list and the names with a failure record.\<close>

definition completedNames :: "ProgressTracker \<Rightarrow> jsstring set" where
  "completedNames t = (case data t of None \<Rightarrow> {} | Some d \<Rightarrow> set (completed d))"

definition failedNames :: "ProgressTracker \<Rightarrow> jsstring set" where
  "failedNames t = set (getFailedFiles t)"


text \<open>No name has two failure records.\<close>

definition failuresDistinct :: "ProgressTracker \<Rightarrow> bool" where
  "failuresDistinct t = distinct (getFailedFiles t)"

text \<open>A run in which \<^verbatim>\<open>markFailed\<close> is never called for a name that is completed at that
  moment.\<close>

fun neverFailsCompleted :: "ProgressTracker \<Rightarrow> (ledger_op \<times> jsstring) list \<Rightarrow> bool" where
  "neverFailsCompleted t [] = True"
| "neverFailsCompleted t ((MarkFailed name err n, now) # ops) =
     (name \<notin> completedNames t \<and> neverFailsCompleted (applyOp t (MarkFailed name err n, now)) ops)"
| "neverFailsCompleted t (op # ops) = neverFailsCompleted (applyOp t op) ops"

section \<open>Dedup Ledger (class UploadLog, src/unnamed/part_000)\<close>

text \<open>
  The regular expression of \<^verbatim>\<open>load\<close> is \<^verbatim>\<open>/^\[.*?\]\s+SUCCESS\s+(.+)$/\<close>. The matcher
  below follows it piece by piece, with the backtracking order of the engine, and returns
  the text of the capture group. The line holds no line feed, and \<^verbatim>\<open>$\<close> is the end of
  the line.
\<close>

text \<open>\<^verbatim>\<open>(.+)$\<close>: the rest of the line, not empty and free of line terminators.\<close>

definition matchCapture :: "jsstring \<Rightarrow> jsstring option" where
  "matchCapture s =
     (if s \<noteq> [] \<and> list_all (\<lambda>c. \<not> isLineTerminator c) s then Some s else None)"

text \<open>\<^verbatim>\<open>\s+(.+)$\<close>: greedy, so a longer run of white space is tried first.\<close>

fun matchSpacesCapture :: "jsstring \<Rightarrow> jsstring option" where
  "matchSpacesCapture [] = None"
| "matchSpacesCapture (c # s) =
     (if isSpace c
      then (case matchSpacesCapture s of Some m \<Rightarrow> Some m | None \<Rightarrow> matchCapture s)
      else None)"

text \<open>\<^verbatim>\<open>SUCCESS\s+(.+)$\<close>\<close>

definition matchKeyword :: "jsstring \<Rightarrow> jsstring option" where
  "matchKeyword s =
     (if take 7 s = js ''SUCCESS'' then matchSpacesCapture (drop 7 s) else None)"

text \<open>\<^verbatim>\<open>\s+SUCCESS\s+(.+)$\<close>\<close>

fun matchSpacesKeyword :: "jsstring \<Rightarrow> jsstring option" where
  "matchSpacesKeyword [] = None"
| "matchSpacesKeyword (c # s) =
     (if isSpace c
      then (case matchSpacesKeyword s of Some m \<Rightarrow> Some m | None \<Rightarrow> matchKeyword s)
      else None)"

text \<open>\<^verbatim>\<open>.*?\]\s+SUCCESS\s+(.+)$\<close>: lazy, so the closing bracket is tried at each position
  before \<^verbatim>\<open>.\<close> takes one more character.\<close>

fun matchLazy :: "jsstring \<Rightarrow> jsstring option" where
  "matchLazy [] = None"
| "matchLazy (c # s) =
     (case (if c = 0x5D then matchSpacesKeyword s else None) of
        Some m \<Rightarrow> Some m
      | None \<Rightarrow> if isLineTerminator c then None else matchLazy s)"

definition matchSuccessLine :: "jsstring \<Rightarrow> jsstring option" where
  "matchSuccessLine line =
     (case line of [] \<Rightarrow> None | c # s \<Rightarrow> if c = 0x5B then matchLazy s else None)"

text \<open>The log object: the membership set and the log file, \<open>None\<close> when the file does not
  exist.\<close>

record UploadLog =
  logFilePath :: jsstring
  uploaded :: "jsstring set"
  logFile :: "jsstring option"
  logWritable :: bool

definition UploadLog_load :: "UploadLog \<Rightarrow> UploadLog" where
  "UploadLog_load l =
     (case logFile l of
        None \<Rightarrow> l
      | Some content \<Rightarrow>
          l\<lparr>uploaded :=
              fold (\<lambda>line u. case matchSuccessLine line of
                                Some m \<Rightarrow> insert (trim m) u
                              | None \<Rightarrow> u)
                (filter (\<lambda>line. trim line \<noteq> []) (split 0x0A content))
                (uploaded l)\<rparr>)"

definition UploadLog_new :: "jsstring \<Rightarrow> jsstring option \<Rightarrow> bool \<Rightarrow> UploadLog" where
  "UploadLog_new path onDisk canWrite =
     UploadLog_load
       \<lparr>logFilePath = path, uploaded = {}, logFile = onDisk, logWritable = canWrite\<rparr>"

definition isUploaded :: "UploadLog \<Rightarrow> jsstring \<Rightarrow> bool" where
  "isUploaded l targetName \<longleftrightarrow> targetName \<in> uploaded l"

definition appendLog :: "UploadLog \<Rightarrow> jsstring \<Rightarrow> UploadLog \<times> js_error option" where
  "appendLog l line =
     (if logWritable l
      then (l\<lparr>logFile := Some ((case logFile l of None \<Rightarrow> [] | Some c \<Rightarrow> c) @ line)\<rparr>, None)
      else (l, Some IOError))"

definition logSuccess ::
  "UploadLog \<Rightarrow> jsstring \<Rightarrow> jsstring \<Rightarrow> jsstring \<Rightarrow> UploadLog \<times> js_error option" where
  "logSuccess l targetName wikiPrefix timestamp =
     appendLog (l\<lparr>uploaded := insert targetName (uploaded l)\<rparr>)
       (js ''['' @ timestamp @ js ''] SUCCESS '' @ targetName @ js '' -> '' @ wikiPrefix @ [0x0A])"

definition logSkipped ::
  "UploadLog \<Rightarrow> jsstring \<Rightarrow> jsstring \<Rightarrow> jsstring \<Rightarrow> UploadLog \<times> js_error option" where
  "logSkipped l targetName reason timestamp =
     appendLog l
       (js ''['' @ timestamp @ js ''] SKIPPED '' @ targetName @ js '' ('' @ reason @ js '')'' @ [0x0A])"

definition logFailed ::
  "UploadLog \<Rightarrow> jsstring \<Rightarrow> jsstring \<Rightarrow> jsstring \<Rightarrow> UploadLog \<times> js_error option" where
  "logFailed l targetName err timestamp =
     appendLog l
       (js ''['' @ timestamp @ js ''] FAILED  '' @ targetName @ js '' ('' @ err @ js '')'' @ [0x0A])"

section \<open>Transfer Executor (src/lib/image-uploader.js)\<close>

text \<open>
  The remote capability is a parameter. Its reply to a call may depend on the arguments
  and on how many calls the run has made before, so \<open>uploadImage\<close> and \<open>editPage\<close>
  take that number first. A call returns a result without an error, returns a result
  with an error of a code and an info text, or throws a value. The executor's side of
  the remote is the list of calls it has made and the list of delays it has slept, in
  milliseconds.
\<close>

text \<open>
  A thrown value, by what reading its \<^verbatim>\<open>message\<close> does. For an object or a primitive the
  read gives a string or \<^verbatim>\<open>undefined\<close>. For \<^verbatim>\<open>undefined\<close> and \<^verbatim>\<open>null\<close> the guarded read
  \<^verbatim>\<open>err?.message\<close> gives \<^verbatim>\<open>undefined\<close> and the plain read \<^verbatim>\<open>err.message\<close> raises a
  TypeError; the message of that TypeError, which the engine words, is the argument.
\<close>

datatype thrown = Thrown "jsstring option" | ThrownNullish jsstring

text \<open>\<^verbatim>\<open>err?.message\<close>\<close>

fun message :: "thrown \<Rightarrow> jsstring option" where
  "message (Thrown m) = m"
| "message (ThrownNullish engineText) = None"

text \<open>\<^verbatim>\<open>err.message\<close>: the message, or the TypeError that the read raises.\<close>

fun strictMessage :: "thrown \<Rightarrow> thrown + jsstring option" where
  "strictMessage (Thrown m) = Inr m"
| "strictMessage (ThrownNullish engineText) = Inl (Thrown (Some engineText))"

datatype upload_reply =
    UploadReturned "jsstring option"
  | UploadReportedError jsstring jsstring
  | UploadThrew thrown

datatype edit_reply =
    EditReturned
  | EditReportedError jsstring jsstring
  | EditThrew thrown

record wiki =
  uploadImage :: "nat \<Rightarrow> jsstring \<Rightarrow> jsstring \<Rightarrow> jsstring \<Rightarrow> upload_reply"
  editPage :: "nat \<Rightarrow> jsstring \<Rightarrow> jsstring \<Rightarrow> jsstring \<Rightarrow> edit_reply"

datatype remote_call = UploadCall jsstring jsstring | EditCall jsstring jsstring

record remote =
  calls :: "remote_call list"
  sleeps :: "nat list"

definition sleep :: "nat \<Rightarrow> remote \<Rightarrow> remote" where
  "sleep ms r = r\<lparr>sleeps := sleeps r @ [ms]\<rparr>"

text \<open>\<^verbatim>\<open>new Error(`${code}: ${info}`)\<close> for a reported error.\<close>

definition reportedError :: "jsstring \<Rightarrow> jsstring \<Rightarrow> thrown" where
  "reportedError code info = Thrown (Some (code @ js '': '' @ info))"

text \<open>A value in a template literal: \<^verbatim>\<open>undefined\<close> prints as that word.\<close>

definition templateText :: "jsstring option \<Rightarrow> jsstring" where
  "templateText v = (case v of None \<Rightarrow> js ''undefined'' | Some s \<Rightarrow> s)"

text \<open>\<^verbatim>\<open>a || b\<close> for a value that is a string or missing.\<close>

definition orElse :: "jsstring option \<Rightarrow> jsstring \<Rightarrow> jsstring" where
  "orElse v d = (if truthy v then the v else d)"

datatype edit_result = EditSucceeded | EditFailed "jsstring option"

text \<open>What an attempt of \<^verbatim>\<open>editFilePage\<close> throws for a reply: the value that the call
  threw, or the error made from the reported one; nothing when the edit went through.\<close>

definition editError :: "edit_reply \<Rightarrow> thrown option" where
  "editError reply =
     (case reply of
        EditReturned \<Rightarrow> None
      | EditReportedError code info \<Rightarrow> Some (reportedError code info)
      | EditThrew err \<Rightarrow> Some err)"

text \<open>The body of the \<^verbatim>\<open>try\<close> block of \<^verbatim>\<open>editFilePage\<close>: it returns or throws.\<close>

definition tryEdit ::
  "wiki \<Rightarrow> jsstring \<Rightarrow> jsstring \<Rightarrow> jsstring \<Rightarrow> remote \<Rightarrow> (thrown + edit_result) \<times> remote" where
  "tryEdit w pageTitle wikiText summary r =
     (let reply = editPage w (length (calls r)) pageTitle wikiText summary;
          r1 = r\<lparr>calls := calls r @ [EditCall pageTitle wikiText]\<rparr>
      in case editError reply of
           None \<Rightarrow> (Inr EditSucceeded, r1)
         | Some err \<Rightarrow> (Inl err, r1))"

text \<open>The loop of \<^verbatim>\<open>editFilePage\<close>. The \<^verbatim>\<open>catch\<close> block of the last attempt reads
  \<^verbatim>\<open>err.message\<close> unguarded, so the function itself throws when the edit threw
  \<^verbatim>\<open>undefined\<close> or \<^verbatim>\<open>null\<close>.\<close>

function editLoop ::
  "wiki \<Rightarrow> jsstring \<Rightarrow> jsstring \<Rightarrow> jsstring \<Rightarrow> nat \<Rightarrow> nat \<Rightarrow> remote
     \<Rightarrow> (thrown + edit_result) \<times> remote" where
  "editLoop w pageTitle wikiText summary retries attempt r =
     (if attempt \<le> retries
      then (case tryEdit w pageTitle wikiText summary r of
              (Inr res, r1) \<Rightarrow> (Inr res, r1)
            | (Inl err, r1) \<Rightarrow>
                if attempt < retries
                then editLoop w pageTitle wikiText summary retries (attempt + 1)
                       (sleep (500 * attempt) r1)
                else (case strictMessage err of
                        Inr m \<Rightarrow> (Inr (EditFailed m), r1)
                      | Inl typeError \<Rightarrow> (Inl typeError, r1)))
      else (Inr (EditFailed (Some (js ''Max retries exceeded''))), r))"
  by pat_completeness auto
termination
  by (relation "measure (\<lambda>(w, pageTitle, wikiText, summary, retries, attempt, r).
        Suc retries - attempt)") auto

declare editLoop.simps [simp del]

definition editFilePage ::
  "wiki \<Rightarrow> jsstring \<Rightarrow> jsstring \<Rightarrow> jsstring \<Rightarrow> nat \<Rightarrow> remote
     \<Rightarrow> (thrown + edit_result) \<times> remote" where
  "editFilePage w pageTitle wikiText summary retries r =
     editLoop w pageTitle wikiText summary retries 1 r"

text \<open>The result object of \<^verbatim>\<open>uploadSingleImage\<close>:
  \<^verbatim>\<open>{success: true, skipped: true, message}\<close>,
  \<^verbatim>\<open>{success: true, skipped: false, filename, warning?}\<close> or
  \<^verbatim>\<open>{success: false, error, attempts}\<close>.\<close>

datatype upload_result =
    ResultSkipped jsstring
  | ResultUploaded jsstring "jsstring option"
  | ResultFailed jsstring nat

text \<open>What an attempt of \<^verbatim>\<open>uploadSingleImage\<close> throws for the reply to its upload call;
  nothing when the upload went through or the file exists with the same content.\<close>

definition uploadError :: "upload_reply \<Rightarrow> thrown option" where
  "uploadError reply =
     (case reply of
        UploadThrew err \<Rightarrow> Some err
      | UploadReportedError code info \<Rightarrow>
          if code = js ''fileexists-no-change'' then None else Some (reportedError code info)
      | UploadReturned uploadedName \<Rightarrow> None)"

text \<open>The body of the \<^verbatim>\<open>try\<close> block of \<^verbatim>\<open>uploadSingleImage\<close>; what \<^verbatim>\<open>editFilePage\<close>
  throws is thrown on.\<close>

definition tryUpload ::
  "wiki \<Rightarrow> jsstring \<Rightarrow> jsstring \<Rightarrow> jsstring \<Rightarrow> jsstring \<Rightarrow> nat \<Rightarrow> remote
     \<Rightarrow> (thrown + upload_result) \<times> remote" where
  "tryUpload w path targetName wikiText summary retries r =
     (let reply = uploadImage w (length (calls r)) path targetName summary;
          r1 = r\<lparr>calls := calls r @ [UploadCall path targetName]\<rparr>
      in case reply of
           UploadThrew err \<Rightarrow> (Inl err, r1)
         | UploadReportedError code info \<Rightarrow>
             if code = js ''fileexists-no-change''
             then (Inr (ResultSkipped (js ''File already exists with same content'')), r1)
             else (Inl (reportedError code info), r1)
         | UploadReturned uploadedName \<Rightarrow>
             (case editFilePage w (js ''File:'' @ targetName) wikiText summary retries r1 of
                (Inl typeError, r2) \<Rightarrow> (Inl typeError, r2)
              | (Inr (EditFailed e), r2) \<Rightarrow>
                  (Inr (ResultUploaded (orElse uploadedName targetName)
                     (Some (js ''Upload OK, but category edit failed: '' @ templateText e))), r2)
              | (Inr EditSucceeded, r2) \<Rightarrow>
                  (Inr (ResultUploaded (orElse uploadedName targetName) None), r2)))"

text \<open>\<^verbatim>\<open>lastError?.message || 'Unknown error'\<close>\<close>

definition lastErrorText :: "thrown option \<Rightarrow> jsstring" where
  "lastErrorText lastError =
     (case lastError of
        None \<Rightarrow> js ''Unknown error''
      | Some err \<Rightarrow> orElse (message err) (js ''Unknown error''))"

function uploadLoop ::
  "wiki \<Rightarrow> jsstring \<Rightarrow> jsstring \<Rightarrow> jsstring \<Rightarrow> jsstring \<Rightarrow> nat \<Rightarrow> nat \<Rightarrow> thrown option \<Rightarrow> remote
     \<Rightarrow> upload_result \<times> remote" where
  "uploadLoop w path targetName wikiText summary retries attempt lastError r =
     (if attempt \<le> retries
      then (case tryUpload w path targetName wikiText summary retries r of
              (Inr res, r1) \<Rightarrow> (res, r1)
            | (Inl err, r1) \<Rightarrow>
                uploadLoop w path targetName wikiText summary retries (attempt + 1) (Some err)
                  (if attempt < retries then sleep (1000 * attempt) r1 else r1))
      else (ResultFailed (lastErrorText lastError) retries, r))"
  by pat_completeness auto
termination
  by (relation "measure (\<lambda>(w, path, targetName, wikiText, summary, retries, attempt, lastError, r).
        Suc retries - attempt)") auto

declare uploadLoop.simps [simp del]

definition uploadSingleImage ::
  "wiki \<Rightarrow> jsstring \<Rightarrow> jsstring \<Rightarrow> jsstring \<Rightarrow> jsstring \<Rightarrow> nat \<Rightarrow> remote
     \<Rightarrow> upload_result \<times> remote" where
  "uploadSingleImage w path targetName wikiText summary retries r =
     uploadLoop w path targetName wikiText summary retries 1 None r"

text \<open>The options of \<^verbatim>\<open>processUploadQueue\<close>; \<open>onProgress\<close> says whether an observer is
  installed.\<close>

record options =
  concurrency :: jsvalue
  dryRun :: bool
  onProgress :: bool

definition normalizeConcurrency :: "jsvalue \<Rightarrow> int option" where
  "normalizeConcurrency v = (case v of Number x \<Rightarrow> Some (max 1 \<lfloor>x\<rfloor>) | _ \<Rightarrow> None)"

text \<open>\<^verbatim>\<open>config?.upload?.maxConcurrency ?? config?.upload?.concurrency\<close>\<close>

definition configuredConcurrency :: "config \<Rightarrow> jsvalue" where
  "configuredConcurrency cfg =
     (case upload cfg of
        None \<Rightarrow> Undefined
      | Some u \<Rightarrow>
          if upload_maxConcurrency u = Undefined \<or> upload_maxConcurrency u = Null
          then upload_concurrency u else upload_maxConcurrency u)"

definition maxConcurrency :: "options \<Rightarrow> config \<Rightarrow> int" where
  "maxConcurrency opts cfg =
     (case normalizeConcurrency (concurrency opts) of
        Some requested \<Rightarrow>
          (case normalizeConcurrency (configuredConcurrency cfg) of
             Some configMax \<Rightarrow> min requested configMax
           | None \<Rightarrow> requested)
      | None \<Rightarrow>
          (case normalizeConcurrency (configuredConcurrency cfg) of
             Some configMax \<Rightarrow> configMax
           | None \<Rightarrow> 1))"

text \<open>The number of workers that \<^verbatim>\<open>processUploadQueue\<close> starts.\<close>

definition workerCount :: "options \<Rightarrow> config \<Rightarrow> jsstring list \<Rightarrow> int" where
  "workerCount opts cfg files = min (maxConcurrency opts cfg) (int (length files))"

text \<open>The path map, built from the relative paths that \<^verbatim>\<open>collectImages\<close> found; a later
  path replaces an earlier one with the same flattened name.\<close>

definition pathMapOf :: "jsstring list \<Rightarrow> (jsstring \<rightharpoonup> jsstring)" where
  "pathMapOf images = fold (\<lambda>rel m. m(transformPath rel \<mapsto> rel)) images Map.empty"

datatype event =
    EvError jsstring jsstring
  | EvSkip jsstring jsstring
  | EvDryRun jsstring jsstring categories jsstring jsstring
  | EvUploading jsstring
  | EvWarning jsstring jsstring
  | EvSuccess jsstring

text \<open>What a worker reads and writes: the remote, the two ledgers, the events handed to
  the observer, and the three counters \<^verbatim>\<open>completed\<close>, \<^verbatim>\<open>failed\<close> and \<^verbatim>\<open>skipped\<close>.\<close>

record exec =
  remote :: remote
  tracker :: ProgressTracker
  uploadLog :: UploadLog
  events :: "event list"
  completedCount :: nat
  failedCount :: nat
  skippedCount :: nat

definition emit :: "options \<Rightarrow> event \<Rightarrow> exec \<Rightarrow> exec" where
  "emit opts e st = (if onProgress opts then st\<lparr>events := events st @ [e]\<rparr> else st)"

definition withTracker ::
  "(ProgressTracker \<Rightarrow> ProgressTracker \<times> js_error option) \<Rightarrow> exec \<Rightarrow> exec \<times> js_error option" where
  "withTracker f st = (case f (tracker st) of (t, x) \<Rightarrow> (st\<lparr>tracker := t\<rparr>, x))"

definition withLog ::
  "(UploadLog \<Rightarrow> UploadLog \<times> js_error option) \<Rightarrow> exec \<Rightarrow> exec \<times> js_error option" where
  "withLog f st = (case f (uploadLog st) of (l, x) \<Rightarrow> (st\<lparr>uploadLog := l\<rparr>, x))"

text \<open>The next statement runs only when the one before did not throw.\<close>

fun andThen ::
  "exec \<times> js_error option \<Rightarrow> (exec \<Rightarrow> exec \<times> js_error option) \<Rightarrow> exec \<times> js_error option" where
  "andThen (st, None) f = f st"
| "andThen (st, Some x) f = (st, Some x)"

text \<open>\<^verbatim>\<open>config.upload?.comment || 'Batch image upload'\<close> and
  \<^verbatim>\<open>config.wiki?.prefix || 'unknown'\<close>\<close>

definition uploadComment :: "config \<Rightarrow> jsstring" where
  "uploadComment cfg =
     orElse (case upload cfg of None \<Rightarrow> None | Some u \<Rightarrow> upload_comment u)
       (js ''Batch image upload'')"

definition wikiPrefixOf :: "config \<Rightarrow> jsstring" where
  "wikiPrefixOf cfg = orElse (wiki_prefix cfg) (js ''unknown'')"

text \<open>
  One turn of the loop of \<^verbatim>\<open>worker\<close>, for the target name it has claimed. \<open>pathJoin\<close> is
  \<^verbatim>\<open>path.join\<close>; \<open>clock 0\<close> and \<open>clock 1\<close> are the two clock readings of the turn, for the
  progress file and for the log line. The turn is taken alone: no other worker runs
  while the upload is awaited.
\<close>

definition processItem ::
  "wiki \<Rightarrow> (jsstring \<Rightarrow> jsstring \<Rightarrow> jsstring) \<Rightarrow> (jsstring \<rightharpoonup> jsstring) \<Rightarrow> jsstring \<Rightarrow> config
     \<Rightarrow> options \<Rightarrow> (nat \<Rightarrow> jsstring) \<Rightarrow> jsstring \<Rightarrow> exec \<Rightarrow> exec \<times> js_error option" where
  "processItem w pathJoin pathMap srcDir cfg opts clock targetName st =
     (let summary = uploadComment cfg;
          wikiPrefix = wikiPrefixOf cfg;
          originalRelPath = pathMap targetName
      in if \<not> truthy originalRelPath then
           andThen (andThen
             (withTracker (\<lambda>t. markFailed t targetName (js ''Source file not found'') 1 (clock 0))
                (emit opts (EvError targetName (js ''Source file not found'')) st))
             (withLog (\<lambda>l. logFailed l targetName (js ''Source file not found'') (clock 1))))
             (\<lambda>s. (s\<lparr>failedCount := failedCount s + 1\<rparr>, None))
         else if isUploaded (uploadLog st) targetName then
           andThen
             (withTracker (\<lambda>t. markCompleted t targetName (clock 0))
                (emit opts (EvSkip targetName (js ''Already uploaded'')) st))
             (\<lambda>s. (s\<lparr>skippedCount := skippedCount s + 1\<rparr>, None))
         else
           (let absolutePath = pathJoin srcDir (the originalRelPath);
                cats = extractCategories (the originalRelPath) cfg;
                wikiText = generateWikiText cats cfg;
                sanitizedName = sanitizeFileName targetName
            in if dryRun opts then
                 ((emit opts (EvDryRun targetName sanitizedName cats wikiText
                     (js ''File:'' @ sanitizedName)) st)
                    \<lparr>completedCount := completedCount st + 1\<rparr>, None)
               else
                 (case uploadSingleImage w absolutePath sanitizedName wikiText summary 3
                         (remote (emit opts (EvUploading targetName) st)) of
                    (result, r) \<Rightarrow>
                      (let st1 = (emit opts (EvUploading targetName) st)\<lparr>remote := r\<rparr>
                       in case result of
                            ResultSkipped msg \<Rightarrow>
                              andThen
                                (withTracker (\<lambda>t. markCompleted t targetName (clock 0))
                                   ((emit opts (EvSkip targetName msg) st1)
                                      \<lparr>skippedCount := skippedCount st1 + 1\<rparr>))
                                (withLog (\<lambda>l. logSuccess l targetName wikiPrefix (clock 1)))
                          | ResultUploaded uploadedName warning \<Rightarrow>
                              andThen
                                (withTracker (\<lambda>t. markCompleted t targetName (clock 0))
                                   ((emit opts
                                       (if truthy warning then EvWarning targetName (the warning)
                                        else EvSuccess targetName) st1)
                                      \<lparr>completedCount := completedCount st1 + 1\<rparr>))
                                (withLog (\<lambda>l. logSuccess l targetName wikiPrefix (clock 1)))
                          | ResultFailed err n \<Rightarrow>
                              andThen (andThen
                                (withTracker (\<lambda>t. markFailed t targetName err n (clock 0))
                                   (emit opts (EvError targetName err) st1))
                                (withLog (\<lambda>l. logFailed l targetName err (clock 1))))
                                (\<lambda>s. (s\<lparr>failedCount := failedCount s + 1\<rparr>, None))))))"

section \<open>Auxiliary notions for the proofs\<close>

text \<open>A string is single-spaced when each of its white-space characters is a space that
  no white space follows.\<close>

fun singleSpaced :: "jsstring \<Rightarrow> bool" where
  "singleSpaced [] = True"
| "singleSpaced [c] = (isSpace c \<longrightarrow> c = 0x20)"
| "singleSpaced (c # d # s) = ((isSpace c \<longrightarrow> c = 0x20 \<and> \<not> isSpace d) \<and> singleSpaced (d # s))"

section \<open>Example remotes and ledgers\<close>

text \<open>A remote whose every upload throws an error with the given message, a remote that
  takes every upload and whose every edit throws an error with the given message, and a
  remote that takes every upload and whose every edit throws \<^verbatim>\<open>undefined\<close>.\<close>

definition uploadFailingWiki :: "jsstring \<Rightarrow> wiki" where
  "uploadFailingWiki m =
     \<lparr>uploadImage = (\<lambda>k path targetName summary. UploadThrew (Thrown (Some m))),
      editPage = (\<lambda>k pageTitle wikiText summary. EditReturned)\<rparr>"

definition editFailingWiki :: "jsstring \<Rightarrow> wiki" where
  "editFailingWiki m =
     \<lparr>uploadImage = (\<lambda>k path targetName summary. UploadReturned None),
      editPage = (\<lambda>k pageTitle wikiText summary. EditThrew (Thrown (Some m)))\<rparr>"

definition editUndefinedWiki :: "jsstring \<Rightarrow> wiki" where
  "editUndefinedWiki engineText =
     \<lparr>uploadImage = (\<lambda>k path targetName summary. UploadReturned None),
      editPage = (\<lambda>k pageTitle wikiText summary. EditThrew (ThrownNullish engineText))\<rparr>"

definition exampleConfig :: config where
  "exampleConfig = \<lparr>upload = None, wiki_prefix = Some (js ''dnd5e''), categoryMapping = None\<rparr>"

definition exampleOptions :: options where
  "exampleOptions = \<lparr>concurrency = Undefined, dryRun = False, onProgress = True\<rparr>"

definition exampleTime :: jsstring where
  "exampleTime = js ''2026-01-12T13:30:00.000Z''"

definition exampleClock :: "nat \<Rightarrow> jsstring" where
  "exampleClock k = exampleTime"

text \<open>A tracker just after \<^verbatim>\<open>init\<close> with the given names, on a writable disk with no
  progress file.\<close>

definition freshTracker :: "jsstring list \<Rightarrow> ProgressTracker" where
  "freshTracker files =
     fst (ProgressTracker_init id (ProgressTracker_new (js ''upload-progress.json'') None True)
            (js ''images'') files exampleTime exampleTime)"

text \<open>A log object made when no log file exists, and the one made from the file that the
  first has written after one \<^verbatim>\<open>logSuccess\<close>.\<close>

definition emptyLog :: UploadLog where
  "emptyLog = UploadLog_new (js ''logs/upload.log'') None True"

definition reloadedLog :: "jsstring \<Rightarrow> jsstring \<Rightarrow> UploadLog" where
  "reloadedLog targetName wikiPrefix =
     UploadLog_new (js ''logs/upload.log'')
       (logFile (fst (logSuccess emptyLog targetName wikiPrefix exampleTime))) True"

definition freshExec :: "jsstring list \<Rightarrow> UploadLog \<Rightarrow> exec" where
  "freshExec files l =
     \<lparr>remote = \<lparr>calls = [], sleeps = []\<rparr>, tracker = freshTracker files, uploadLog = l,
      events = [], completedCount = 0, failedCount = 0, skippedCount = 0\<rparr>"

text \<open>The same, when the progress file can no longer be written.\<close>

definition readOnlyExec :: "jsstring list \<Rightarrow> UploadLog \<Rightarrow> exec" where
  "readOnlyExec files l =
     (freshExec files l)\<lparr>tracker := (freshTracker files)\<lparr>progressWritable := False\<rparr>\<rparr>"

text \<open>\<^verbatim>\<open>path.join\<close> on a directory and a relative path that need no normalisation.\<close>

definition joinPlain :: "jsstring \<Rightarrow> jsstring \<Rightarrow> jsstring" where
  "joinPlain dir rel = dir @ js ''/'' @ rel"

text \<open>A request for ten workers under a configured maximum of three.\<close>

definition tenOfThree :: "options \<times> config" where
  "tenOfThree =
     (\<lparr>concurrency = Number 10, dryRun = False, onProgress = True\<rparr>,
      \<lparr>upload = Some \<lparr>upload_maxConcurrency = Number 3, upload_concurrency = Undefined,
                      upload_comment = None\<rparr>,
       wiki_prefix = None, categoryMapping = None\<rparr>)"

section \<open>The Name Sanitizer is idempotent\<close>


lemma isSpace_space: "isSpace 0x20"
  by (simp add: isSpace_def)

lemma replaceSpaceRuns_head:
  "s = [] \<or> \<not> isSpace (hd s) \<Longrightarrow> replaceSpaceRuns s = [] \<or> \<not> isSpace (hd (replaceSpaceRuns s))"
  by (cases s) auto

lemma dropWhile_head: "dropWhile P s = [] \<or> \<not> P (hd (dropWhile P s))"
  using hd_dropWhile [of P s] by blast

lemma dropWhile_self: "s = [] \<or> \<not> P (hd s) \<Longrightarrow> dropWhile P s = s"
  by (cases s) auto

lemma singleSpaced_Cons_space:
  "t = [] \<or> \<not> isSpace (hd t) \<Longrightarrow> singleSpaced t \<Longrightarrow> singleSpaced (0x20 # t)"
  by (cases t) (auto simp: isSpace_space)

lemma singleSpaced_Cons_other:
  "\<not> isSpace c \<Longrightarrow> singleSpaced t \<Longrightarrow> singleSpaced (c # t)"
  by (cases t) auto

lemma singleSpaced_replaceSpaceRuns: "singleSpaced (replaceSpaceRuns s)"
proof (induction s rule: replaceSpaceRuns.induct)
  case 1
  show ?case by simp
next
  case (2 c s)
  show ?case
  proof (cases "isSpace c")
    case True
    have "replaceSpaceRuns (dropWhile isSpace s) = []
          \<or> \<not> isSpace (hd (replaceSpaceRuns (dropWhile isSpace s)))"
      by (rule replaceSpaceRuns_head) (rule dropWhile_head)
    with True 2 show ?thesis
      by (simp add: singleSpaced_Cons_space)
  next
    case False
    with 2 show ?thesis
      by (simp add: singleSpaced_Cons_other)
  qed
qed

lemma replaceSpaceRuns_fixed: "singleSpaced s \<Longrightarrow> replaceSpaceRuns s = s"
  by (induction s rule: singleSpaced.induct) auto

lemma singleSpaced_tl: "singleSpaced (c # s) \<Longrightarrow> singleSpaced s"
  by (cases s) auto

lemma singleSpaced_suffix: "singleSpaced (xs @ ys) \<Longrightarrow> singleSpaced ys"
  by (induction xs) (auto dest: singleSpaced_tl)

lemma singleSpaced_prefix: "singleSpaced (xs @ ys) \<Longrightarrow> singleSpaced xs"
proof (induction xs rule: singleSpaced.induct)
  case 1
  show ?case by simp
next
  case (2 c)
  then show ?case by (cases ys) auto
next
  case (3 c d s)
  then show ?case by auto
qed

lemma trim_split: "\<exists>pre post. s = pre @ trim s @ post"
proof -
  let ?u = "dropWhile isSpace s"
  have "s = takeWhile isSpace s @ ?u"
    by simp
  moreover have "?u = rev (dropWhile isSpace (rev ?u)) @ rev (takeWhile isSpace (rev ?u))"
    by (metis rev_append rev_rev_ident takeWhile_dropWhile_id)
  ultimately have "s = takeWhile isSpace s @ trim s @ rev (takeWhile isSpace (rev ?u))"
    by (simp add: trim_def)
  then show ?thesis by blast
qed

lemma singleSpaced_trim: "singleSpaced s \<Longrightarrow> singleSpaced (trim s)"
proof -
  assume a: "singleSpaced s"
  obtain pre post where "s = pre @ trim s @ post"
    using trim_split by blast
  with a have "singleSpaced (pre @ trim s @ post)"
    by simp
  then show ?thesis
    by (blast dest: singleSpaced_suffix singleSpaced_prefix)
qed

lemma set_trim: "set (trim s) \<subseteq> set s"
proof -
  obtain pre post where "s = pre @ trim s @ post"
    using trim_split by blast
  then have "set s = set pre \<union> set (trim s) \<union> set post"
    by (metis append_assoc set_append)
  then show ?thesis by blast
qed

lemma trim_fixed: "trim (trim s) = trim s"
proof -
  let ?u = "dropWhile isSpace s"
  let ?v = "dropWhile isSpace (rev ?u)"
  have u: "?u = rev ?v @ rev (takeWhile isSpace (rev ?u))"
    by (metis rev_append rev_rev_ident takeWhile_dropWhile_id)
  have "rev ?v = [] \<or> \<not> isSpace (hd (rev ?v))"
  proof (cases "rev ?v = []")
    case True
    then show ?thesis by blast
  next
    case False
    then have h: "hd (rev ?v) = hd ?u"
      using u by (metis hd_append2)
    have "?u \<noteq> []"
    proof
      assume e: "?u = []"
      have "rev ?v = []"
        by (simp only: e rev.simps dropWhile.simps)
      with False show False ..
    qed
    then have "\<not> isSpace (hd ?u)"
      by (rule hd_dropWhile)
    then have "\<not> isSpace (hd (rev ?v))"
      unfolding h .
    then show ?thesis by blast
  qed
  then have "dropWhile isSpace (rev ?v) = rev ?v"
    by (rule dropWhile_self)
  then show ?thesis
    by (simp add: trim_def)
qed

lemma set_replaceSpaceRuns: "set (replaceSpaceRuns s) \<subseteq> insert 0x20 (set s)"
proof (induction s rule: replaceSpaceRuns.induct)
  case 1
  show ?case by simp
next
  case (2 c s)
  have "set (dropWhile isSpace s) \<subseteq> set s"
    by (rule set_dropWhileD [THEN subsetI])
  with 2 show ?case by auto
qed

lemma replaceEach_fixed: "\<forall>c\<in>set s. \<not> cls c \<Longrightarrow> replaceEach cls r s = s"
  by (induction s) (auto simp: replaceEach_def)

lemma replaceEach_clean: "\<not> cls r \<Longrightarrow> \<forall>c\<in>set (replaceEach cls r s). \<not> cls c"
  by (auto simp: replaceEach_def)

text \<open>After the two replacements neither a colon nor a reserved character is left, and
  the later steps add only spaces.\<close>

lemma sanitizeFileName_clean:
  "\<forall>c\<in>set (sanitizeFileName x). c \<noteq> 0x3A \<and> \<not> isReserved c"
proof
  fix c
  assume c: "c \<in> set (sanitizeFileName x)"
  let ?r = "replaceEach isReserved 0x5F (replaceEach (\<lambda>c. c = 0x3A) 0x5F x)"
  have "set (sanitizeFileName x) \<subseteq> set (replaceSpaceRuns ?r)"
    unfolding sanitizeFileName_def by (rule set_trim)
  also have "\<dots> \<subseteq> insert 0x20 (set ?r)"
    by (rule set_replaceSpaceRuns)
  finally have d: "c = 0x20 \<or> c \<in> set ?r"
    using c by blast
  have sp: "(0x20::jschar) \<noteq> 0x3A \<and> \<not> isReserved 0x20"
    by (simp add: isReserved_def)
  have r: "\<forall>d\<in>set ?r. d \<noteq> 0x3A \<and> \<not> isReserved d"
    by (auto simp: replaceEach_def isReserved_def)
  from d show "c \<noteq> 0x3A \<and> \<not> isReserved c"
  proof
    assume "c = 0x20"
    with sp show ?thesis by simp
  next
    assume "c \<in> set ?r"
    with r show ?thesis by (rule bspec)
  qed
qed

text \<open>
  C5. Sanitizing is idempotent: for every string \<open>x\<close>, sanitizing the sanitized name gives
  the sanitized name again.
\<close>

theorem sanitizeFileName_idempotent:
  "sanitizeFileName (sanitizeFileName x) = sanitizeFileName x"
proof -
  let ?y = "sanitizeFileName x"
  have colon: "replaceEach (\<lambda>c. c = 0x3A) 0x5F ?y = ?y"
    using sanitizeFileName_clean [of x] by (intro replaceEach_fixed) blast
  have reserved: "replaceEach isReserved 0x5F ?y = ?y"
    using sanitizeFileName_clean [of x] by (intro replaceEach_fixed) blast
  have "singleSpaced ?y"
    unfolding sanitizeFileName_def
    by (intro singleSpaced_trim singleSpaced_replaceSpaceRuns)
  then have runs: "replaceSpaceRuns ?y = ?y"
    by (rule replaceSpaceRuns_fixed)
  have trimmed: "trim ?y = ?y"
    unfolding sanitizeFileName_def by (rule trim_fixed)
  have "sanitizeFileName ?y =
        trim (replaceSpaceRuns (replaceEach isReserved 0x5F
          (replaceEach (\<lambda>c. c = 0x3A) 0x5F ?y)))"
    by (rule sanitizeFileName_def)
  also have "\<dots> = ?y"
    by (simp only: colon reserved runs trimmed)
  finally show ?thesis .
qed

section \<open>The Path Transformer on the example path\<close>

lemma split_fireball:
  "split 0x2F (js ''spells/FTD/Fireball.webp'') = [js ''spells'', js ''FTD'', js ''Fireball.webp'']"
  by (simp add: js_def)

lemma extract_fireball:
  "extractCategories (js ''spells/FTD/Fireball.webp'')
      (cfg\<lparr>categoryMapping := Some [js ''spells'' \<mapsto> [0x6CD5, 0x672F]]\<rparr>)
   = \<lparr>folder = Some (js ''spells''), folderChinese = Some [0x6CD5, 0x672F],
      bookId = Some (js ''FTD'')\<rparr>"
proof -
  have "toLowerCase (js ''spells'') = js ''spells''"
    by (simp add: toLowerCase_def js_def)
  then show ?thesis
    by (simp add: extractCategories_def split_fireball truthy_def)
qed

lemma wikitext_fireball:
  "generateWikiText \<lparr>folder = Some (js ''spells''), folderChinese = Some [0x6CD5, 0x672F],
      bookId = Some (js ''FTD'')\<rparr> c
     = js ''[[Category:'' @ [0x63D2, 0x56FE] @ js '']]'' @
       js ''[[Category:FTD]]'' @
       js ''[[Category:'' @ [0x6CD5, 0x672F] @ js '']]'' @
       js ''[[Category:FTD'' @ [0x63D2, 0x56FE] @ js '']]''"
  by (simp add: generateWikiText_def categoryTag_def illustration_def truthy_def js_def)

text \<open>
  C9. The path \<^verbatim>\<open>spells/FTD/Fireball.webp\<close> with the category mapping of \<^verbatim>\<open>spells\<close> to
  U+6CD5 U+672F gives the target name \<^verbatim>\<open>spells-FTD-Fireball.webp\<close>, the top segment
  \<^verbatim>\<open>spells\<close>, the second segment \<^verbatim>\<open>FTD\<close>, and a metadata text made of the fixed tag,
  the \<^verbatim>\<open>FTD\<close> tag, the tag of the mapped category and the tag of \<^verbatim>\<open>FTD\<close> with the
  suffix, in that order. The other settings of the configuration do not matter.
\<close>

theorem fireball_scenario:
  "transformPath (js ''spells/FTD/Fireball.webp'') = js ''spells-FTD-Fireball.webp'' \<and>
   folder (extractCategories (js ''spells/FTD/Fireball.webp'')
      (cfg\<lparr>categoryMapping := Some [js ''spells'' \<mapsto> [0x6CD5, 0x672F]]\<rparr>)) = Some (js ''spells'') \<and>
   bookId (extractCategories (js ''spells/FTD/Fireball.webp'')
      (cfg\<lparr>categoryMapping := Some [js ''spells'' \<mapsto> [0x6CD5, 0x672F]]\<rparr>)) = Some (js ''FTD'') \<and>
   generateWikiText (extractCategories (js ''spells/FTD/Fireball.webp'')
      (cfg\<lparr>categoryMapping := Some [js ''spells'' \<mapsto> [0x6CD5, 0x672F]]\<rparr>))
      (cfg\<lparr>categoryMapping := Some [js ''spells'' \<mapsto> [0x6CD5, 0x672F]]\<rparr>)
     = js ''[[Category:'' @ [0x63D2, 0x56FE] @ js '']]'' @
       js ''[[Category:FTD]]'' @
       js ''[[Category:'' @ [0x6CD5, 0x672F] @ js '']]'' @
       js ''[[Category:FTD'' @ [0x63D2, 0x56FE] @ js '']]''"
proof -
  have "transformPath (js ''spells/FTD/Fireball.webp'') = js ''spells-FTD-Fireball.webp''"
    by (simp add: transformPath_def replaceEach_def js_def)
  then show ?thesis
    by (simp only: extract_fireball wikitext_fireball categories.simps simp_thms)
qed

section \<open>The Progress Ledger\<close>

lemma data_save:
  "data (fst (save t now)) = map_option (\<lambda>d. d\<lparr>lastUpdated := now\<rparr>) (data t)"
  by (simp add: save_def Let_def split: option.splits)

lemma data_markCompleted:
  "data t = Some d \<Longrightarrow>
   data (fst (markCompleted t name now)) = Some (d
     \<lparr>pendingFiles := remove1 name (pendingFiles d),
      completed := (if name \<in> set (completed d) then completed d else completed d @ [name]),
      failed := removeFirst (\<lambda>f. fail_file f = name) (failed d),
      lastUpdated := now\<rparr>)"
  by (simp add: markCompleted_def data_save)

lemma data_markFailed:
  "data t = Some d \<Longrightarrow>
   data (fst (markFailed t name err n now)) = Some (d
     \<lparr>pendingFiles := remove1 name (pendingFiles d),
      failed := (case find (\<lambda>f. fail_file f = name) (failed d) of
                   Some existing \<Rightarrow>
                     updateFirst (\<lambda>f. fail_file f = name)
                       (\<lambda>f. f\<lparr>fail_error := err, fail_attempts := n\<rparr>) (failed d)
                 | None \<Rightarrow> failed d @ [\<lparr>fail_file = name, fail_error = err, fail_attempts = n\<rparr>]),
      lastUpdated := now\<rparr>)"
  by (simp add: markFailed_def data_save)

lemma data_retryFailedAdmission:
  "data t = Some d \<Longrightarrow>
   data (fst (retryFailedAdmission t now)) = Some (d
     \<lparr>pendingFiles :=
        fold (\<lambda>f pending. if f \<in> set pending then pending else pending @ [f])
          (map fail_file (failed d)) (pendingFiles d),
      failed := [],
      lastUpdated := now\<rparr>)"
  by (simp add: retryFailedAdmission_def data_save getFailedFiles_def)

lemma data_absent:
  "data t = None \<Longrightarrow> data (applyOp t op) = None"
  by (cases "(t, op)" rule: applyOp.cases)
     (simp_all add: markCompleted_def markFailed_def retryFailedAdmission_def)

lemma names_removeFirst:
  "distinct (map fail_file fs) \<Longrightarrow>
   set (map fail_file (removeFirst (\<lambda>f. fail_file f = name) fs)) = set (map fail_file fs) - {name}"
  by (induction fs) (auto simp: image_iff)

lemma distinct_removeFirst:
  "distinct (map fail_file fs) \<Longrightarrow> distinct (map fail_file (removeFirst P fs))"
proof (induction fs)
  case Nil
  show ?case by simp
next
  case (Cons f fs)
  have "set (removeFirst P fs) \<subseteq> set fs"
    by (induction fs) auto
  with Cons show ?case by auto
qed

lemma names_updateFirst:
  "map fail_file (updateFirst P (\<lambda>f. f\<lparr>fail_error := err, fail_attempts := n\<rparr>) fs) = map fail_file fs"
  by (induction fs) auto

lemma find_failure_None:
  "find (\<lambda>f. fail_file f = name) fs = None \<longleftrightarrow> name \<notin> set (map fail_file fs)"
  by (induction fs) auto




text \<open>
  C10. A tracker whose internal state is absent, as it is after construction and after a
  load that found no file, cannot fabricate run state: \<^verbatim>\<open>markCompleted\<close>, \<^verbatim>\<open>markFailed\<close>
  and \<^verbatim>\<open>save\<close> return without an exception and leave the object and the progress file
  as they were, whether or not the disk can be written; \<^verbatim>\<open>getStats\<close> returns
  \<^verbatim>\<open>null\<close>, and \<^verbatim>\<open>getPendingFiles\<close> and \<^verbatim>\<open>getFailedFiles\<close> return empty lists.
\<close>

theorem absent_state_inert:
  "data (ProgressTracker_new path onDisk canWrite) = None \<and>
   markCompleted (t\<lparr>data := None\<rparr>) name now = (t\<lparr>data := None\<rparr>, None) \<and>
   markFailed (t\<lparr>data := None\<rparr>) name err n now = (t\<lparr>data := None\<rparr>, None) \<and>
   save (t\<lparr>data := None\<rparr>) now = (t\<lparr>data := None\<rparr>, None) \<and>
   getStats (t\<lparr>data := None\<rparr>) = None \<and>
   getPendingFiles (t\<lparr>data := None\<rparr>) = [] \<and>
   getFailedFiles (t\<lparr>data := None\<rparr>) = []"
  by (simp add: ProgressTracker_new_def markCompleted_def markFailed_def save_def getStats_def
      getPendingFiles_def getFailedFiles_def)



text \<open>One operation keeps the two parts of the invariant.\<close>

lemma step_exclusive:
  assumes ex: "completedNames t \<inter> failedNames t = {}"
    and di: "failuresDistinct t"
    and ok: "neverFailsCompleted t [op]"
  shows "completedNames (applyOp t op) \<inter> failedNames (applyOp t op) = {}
         \<and> failuresDistinct (applyOp t op)"
proof (cases "data t")
  case None
  then have "data (applyOp t op) = None"
    by (rule data_absent)
  then show ?thesis
    by (simp add: completedNames_def failedNames_def failuresDistinct_def getFailedFiles_def)
next
  case (Some d)
  from ex Some have ex': "set (completed d) \<inter> set (map fail_file (failed d)) = {}"
    by (simp add: completedNames_def failedNames_def getFailedFiles_def)
  from di Some have di': "distinct (map fail_file (failed d))"
    by (simp add: failuresDistinct_def getFailedFiles_def)
  obtain o' now where op: "op = (o', now)"
    by (cases op)
  show ?thesis
  proof (cases o')
    case (MarkCompleted name)
    have "set (map fail_file (removeFirst (\<lambda>f. fail_file f = name) (failed d)))
          = set (map fail_file (failed d)) - {name}"
      using di' by (rule names_removeFirst)
    moreover have "distinct (map fail_file (removeFirst (\<lambda>f. fail_file f = name) (failed d)))"
      using di' by (rule distinct_removeFirst)
    ultimately show ?thesis
      using ex' Some
      by (auto simp: op MarkCompleted data_markCompleted completedNames_def failedNames_def
          failuresDistinct_def getFailedFiles_def)
  next
    case (MarkFailed name err n)
    from ok have nc: "name \<notin> set (completed d)"
      by (simp add: op MarkFailed completedNames_def Some)
    show ?thesis
    proof (cases "find (\<lambda>f. fail_file f = name) (failed d)")
      case None
      then have "name \<notin> set (map fail_file (failed d))"
        by (rule find_failure_None [THEN iffD1])
      with None ex' di' nc Some show ?thesis
        by (auto simp: op MarkFailed data_markFailed completedNames_def failedNames_def
            failuresDistinct_def getFailedFiles_def)
    next
      case (Some existing)
      with ex' di' nc \<open>data t = Some d\<close> show ?thesis
        by (simp add: op MarkFailed data_markFailed completedNames_def failedNames_def
            failuresDistinct_def getFailedFiles_def names_updateFirst)
    qed
  next
    case RetryAdmission
    with Some show ?thesis
      by (simp add: op data_retryFailedAdmission completedNames_def failedNames_def
          failuresDistinct_def getFailedFiles_def)
  qed
qed

lemma neverFailsCompleted_Cons:
  "neverFailsCompleted t (op # ops) \<longleftrightarrow>
   neverFailsCompleted t [op] \<and> neverFailsCompleted (applyOp t op) ops"
  by (cases "(t, op # ops)" rule: neverFailsCompleted.cases) simp_all

lemma run_exclusive:
  "completedNames t \<inter> failedNames t = {} \<Longrightarrow> failuresDistinct t \<Longrightarrow>
   neverFailsCompleted t ops \<Longrightarrow>
   completedNames (applyOps t ops) \<inter> failedNames (applyOps t ops) = {}
   \<and> failuresDistinct (applyOps t ops)"
proof (induction ops arbitrary: t)
  case Nil
  then show ?case by simp
next
  case (Cons op ops)
  from Cons.prems(3) have one: "neverFailsCompleted t [op]"
    and rest: "neverFailsCompleted (applyOp t op) ops"
    by (simp_all only: neverFailsCompleted_Cons [of t op ops])
  from step_exclusive [OF Cons.prems(1,2) one] rest
  show ?case
    by (simp add: Cons.IH)
qed

text \<open>
  C2, as the code has it. Start from a state in which no name is both completed and failed
  and no name has two failure records, as after \<^verbatim>\<open>init\<close>. Then after every sequence of
  \<^verbatim>\<open>markCompleted\<close>, \<^verbatim>\<open>markFailed\<close> and retry admission in which \<^verbatim>\<open>markFailed\<close> is never
  called for a name that is completed at that moment, no name is both completed and
  failed.
\<close>

theorem failed_completed_exclusive:
  assumes "completedNames t \<inter> failedNames t = {}"
    and "failuresDistinct t"
    and "neverFailsCompleted t ops"
  shows "completedNames (applyOps t ops) \<inter> failedNames (applyOps t ops) = {}"
  using run_exclusive [OF assms] by blast

lemma data_freshTracker:
  "data (freshTracker files) = Some
     \<lparr>taskId = take 14 (filter (\<lambda>c. c \<notin> set (js ''-:T.Z'')) exampleTime),
      sourceDir = js ''images'', startTime = exampleTime, totalFiles = length files,
      pendingFiles = files, completed = [], failed = [], lastUpdated = exampleTime\<rparr>"
  by (simp add: freshTracker_def ProgressTracker_init_def ProgressTracker_new_def data_save)

theorem failed_completed_exclusive_witness:
  "completedNames (freshTracker [js ''a.png'']) \<inter> failedNames (freshTracker [js ''a.png'']) = {} \<and>
   failuresDistinct (freshTracker [js ''a.png'']) \<and>
   neverFailsCompleted (freshTracker [js ''a.png''])
     [(MarkFailed (js ''a.png'') (js ''timeout'') 3, exampleTime),
      (RetryAdmission, exampleTime), (MarkCompleted (js ''a.png''), exampleTime)] \<and>
   completedNames (applyOps (freshTracker [js ''a.png''])
     [(MarkFailed (js ''a.png'') (js ''timeout'') 3, exampleTime),
      (RetryAdmission, exampleTime), (MarkCompleted (js ''a.png''), exampleTime)])
   \<inter> failedNames (applyOps (freshTracker [js ''a.png''])
     [(MarkFailed (js ''a.png'') (js ''timeout'') 3, exampleTime),
      (RetryAdmission, exampleTime), (MarkCompleted (js ''a.png''), exampleTime)]) = {}"
proof -
  let ?t = "freshTracker [js ''a.png'']"
  let ?ops = "[(MarkFailed (js ''a.png'') (js ''timeout'') 3, exampleTime),
      (RetryAdmission, exampleTime), (MarkCompleted (js ''a.png''), exampleTime)]"
  have a: "completedNames ?t \<inter> failedNames ?t = {}"
    by (simp add: completedNames_def failedNames_def getFailedFiles_def data_freshTracker)
  have b: "failuresDistinct ?t"
    by (simp add: failuresDistinct_def getFailedFiles_def data_freshTracker)
  have c: "neverFailsCompleted ?t ?ops"
    by (simp add: completedNames_def data_freshTracker)
  from a b c failed_completed_exclusive [OF a b c] show ?thesis
    by (simp only: simp_thms)
qed

text \<open>\<^verbatim>\<open>markFailed\<close> does not look at the completed list: after \<^verbatim>\<open>init\<close> with one name,
  \<^verbatim>\<open>markCompleted\<close> and then \<^verbatim>\<open>markFailed\<close> leave the name both completed and failed.\<close>

theorem completed_then_failed_counterexample:
  "js ''a.png'' \<in> completedNames (applyOps (freshTracker [js ''a.png''])
      [(MarkCompleted (js ''a.png''), exampleTime),
       (MarkFailed (js ''a.png'') (js ''timeout'') 3, exampleTime)]) \<and>
   js ''a.png'' \<in> failedNames (applyOps (freshTracker [js ''a.png''])
      [(MarkCompleted (js ''a.png''), exampleTime),
       (MarkFailed (js ''a.png'') (js ''timeout'') 3, exampleTime)])"
proof -
  let ?t1 = "fst (markCompleted (freshTracker [js ''a.png'']) (js ''a.png'') exampleTime)"
  have d1: "data ?t1 = Some
     \<lparr>taskId = take 14 (filter (\<lambda>c. c \<notin> set (js ''-:T.Z'')) exampleTime),
      sourceDir = js ''images'', startTime = exampleTime, totalFiles = 1,
      pendingFiles = [], completed = [js ''a.png''], failed = [], lastUpdated = exampleTime\<rparr>"
    by (simp add: data_markCompleted [OF data_freshTracker])
  have "data (fst (markFailed ?t1 (js ''a.png'') (js ''timeout'') 3 exampleTime)) = Some
     \<lparr>taskId = take 14 (filter (\<lambda>c. c \<notin> set (js ''-:T.Z'')) exampleTime),
      sourceDir = js ''images'', startTime = exampleTime, totalFiles = 1,
      pendingFiles = [], completed = [js ''a.png''],
      failed = [\<lparr>fail_file = js ''a.png'', fail_error = js ''timeout'', fail_attempts = 3\<rparr>],
      lastUpdated = exampleTime\<rparr>"
    by (simp add: data_markFailed [OF d1])
  then show ?thesis
    by (simp add: completedNames_def failedNames_def getFailedFiles_def)
qed



section \<open>The Dedup Ledger\<close>

text \<open>The line that \<^verbatim>\<open>logSuccess\<close> writes for \<^verbatim>\<open>a.png\<close> and the wiki \<^verbatim>\<open>dnd5e\<close>, and the
  capture group of the regular expression on it: the name, the arrow and the wiki.\<close>

lemma logFile_after_success:
  "logFile (fst (logSuccess emptyLog (js ''a.png'') (js ''dnd5e'') exampleTime))
   = Some (js ''[2026-01-12T13:30:00.000Z] SUCCESS a.png -> dnd5e'' @ [0x0A])"
  by (simp add: logSuccess_def appendLog_def emptyLog_def UploadLog_new_def UploadLog_load_def
      exampleTime_def js_def)

lemma split_log_line:
  "split 0x0A (js ''[2026-01-12T13:30:00.000Z] SUCCESS a.png -> dnd5e'' @ [0x0A])
   = [js ''[2026-01-12T13:30:00.000Z] SUCCESS a.png -> dnd5e'', []]"
  by (simp add: js_def)

lemma match_log_line:
  "matchSuccessLine (js ''[2026-01-12T13:30:00.000Z] SUCCESS a.png -> dnd5e'')
   = Some (js ''a.png -> dnd5e'')"
  by (simp add: matchSuccessLine_def matchKeyword_def matchCapture_def isSpace_def
      isLineTerminator_def js_def)

lemma trim_log_line:
  "trim (js ''[2026-01-12T13:30:00.000Z] SUCCESS a.png -> dnd5e'') \<noteq> [] \<and>
   trim (js ''a.png -> dnd5e'') = js ''a.png -> dnd5e'' \<and> trim [] = []"
  by (simp add: trim_def isSpace_def js_def)

lemma uploaded_reloadedLog:
  "uploaded (reloadedLog (js ''a.png'') (js ''dnd5e'')) = {js ''a.png -> dnd5e''}"
  by (simp add: reloadedLog_def UploadLog_new_def UploadLog_load_def logFile_after_success
      split_log_line match_log_line trim_log_line)

text \<open>
  C1. The round trip of a success through the log file, as the code does it: on an empty
  log, \<^verbatim>\<open>logSuccess\<close> for \<^verbatim>\<open>a.png\<close> appends its line; a log object then made from that file holds the one member
  \<^verbatim>\<open>a.png -> dnd5e\<close>, and \<^verbatim>\<open>isUploaded\<close> is false for \<^verbatim>\<open>a.png\<close>, whereas the object that
  wrote the line answers true.
\<close>

theorem reload_forgets_success:
  "isUploaded (fst (logSuccess emptyLog (js ''a.png'') (js ''dnd5e'') exampleTime)) (js ''a.png'') \<and>
   uploaded (reloadedLog (js ''a.png'') (js ''dnd5e'')) = {js ''a.png -> dnd5e''} \<and>
   \<not> isUploaded (reloadedLog (js ''a.png'') (js ''dnd5e'')) (js ''a.png'')"
proof -
  have "isUploaded (fst (logSuccess emptyLog (js ''a.png'') (js ''dnd5e'') exampleTime))
          (js ''a.png'')"
    by (simp add: isUploaded_def logSuccess_def appendLog_def)
  moreover have "js ''a.png'' \<noteq> js ''a.png -> dnd5e''"
    by (simp add: js_def)
  ultimately show ?thesis
    by (simp add: isUploaded_def uploaded_reloadedLog)
qed

section \<open>The Transfer Executor\<close>

subsection \<open>Number of workers\<close>

lemma normalizeConcurrency_Number: "normalizeConcurrency (Number x) = Some (max 1 \<lfloor>x\<rfloor>)"
  by (simp add: normalizeConcurrency_def)

text \<open>
  C6, as the code has it. For a list of at least one item, the number of workers is the
  least of the requested concurrency, the configured maximum and the number of items,
  and at least 1, where a bound that is not a finite number is left out; it is 1 when
  neither bound is a finite number.
\<close>

theorem worker_count:
  assumes "files \<noteq> []"
  shows "(concurrency opts = Number x \<and> configuredConcurrency cfg = Number y \<longrightarrow>
            workerCount opts cfg files = max 1 (min \<lfloor>x\<rfloor> (min \<lfloor>y\<rfloor> (int (length files))))) \<and>
         (concurrency opts = Number x \<and> normalizeConcurrency (configuredConcurrency cfg) = None \<longrightarrow>
            workerCount opts cfg files = max 1 (min \<lfloor>x\<rfloor> (int (length files)))) \<and>
         (normalizeConcurrency (concurrency opts) = None \<and> configuredConcurrency cfg = Number y \<longrightarrow>
            workerCount opts cfg files = max 1 (min \<lfloor>y\<rfloor> (int (length files)))) \<and>
         (normalizeConcurrency (concurrency opts) = None \<and>
          normalizeConcurrency (configuredConcurrency cfg) = None \<longrightarrow>
            workerCount opts cfg files = 1)"
proof -
  from assms have "1 \<le> int (length files)"
    by (cases files) simp_all
  then show ?thesis
    by (auto simp: workerCount_def maxConcurrency_def normalizeConcurrency_Number)
qed

theorem worker_count_witness:
  "replicate 100 (js ''a.png'') \<noteq> [] \<and>
   workerCount (fst tenOfThree) (snd tenOfThree) (replicate 100 (js ''a.png'')) = 3 \<and>
   workerCount (exampleOptions\<lparr>concurrency := Number 0\<rparr>) exampleConfig
     (replicate 100 (js ''a.png'')) = 1 \<and>
   workerCount exampleOptions exampleConfig (replicate 100 (js ''a.png'')) = 1"
proof -
  have ne: "replicate 100 (js ''a.png'') \<noteq> []"
    by simp
  have a: "concurrency (fst tenOfThree) = Number 10 \<and>
           configuredConcurrency (snd tenOfThree) = Number 3"
    by (simp add: tenOfThree_def configuredConcurrency_def)
  have b: "concurrency (exampleOptions\<lparr>concurrency := Number 0\<rparr>) = Number 0 \<and>
           normalizeConcurrency (configuredConcurrency exampleConfig) = None"
    by (simp add: exampleConfig_def configuredConcurrency_def normalizeConcurrency_def)
  have c: "normalizeConcurrency (concurrency exampleOptions) = None \<and>
           normalizeConcurrency (configuredConcurrency exampleConfig) = None"
    by (simp add: exampleOptions_def exampleConfig_def configuredConcurrency_def
        normalizeConcurrency_def)
  from worker_count [OF ne, of "fst tenOfThree" 10 "snd tenOfThree" 3] a
  have "workerCount (fst tenOfThree) (snd tenOfThree) (replicate 100 (js ''a.png'')) = 3"
    by simp
  moreover from worker_count [OF ne, of "exampleOptions\<lparr>concurrency := Number 0\<rparr>" 0 exampleConfig] b
  have "workerCount (exampleOptions\<lparr>concurrency := Number 0\<rparr>) exampleConfig
          (replicate 100 (js ''a.png'')) = 1"
    by simp
  moreover from worker_count [OF ne, of exampleOptions _ exampleConfig] c
  have "workerCount exampleOptions exampleConfig (replicate 100 (js ''a.png'')) = 1"
    by simp
  ultimately show ?thesis
    using ne by blast
qed

text \<open>For an empty list of items no worker is started: the floor of 1 is not applied to
  the number of items.\<close>

lemma maxConcurrency_positive: "1 \<le> maxConcurrency opts cfg"
  by (auto simp: maxConcurrency_def normalizeConcurrency_def
      split: option.splits jsvalue.splits)

lemma no_items_no_worker: "workerCount opts cfg [] = 0"
  using maxConcurrency_positive [of opts cfg] by (simp add: workerCount_def)

theorem no_items_no_worker_counterexample:
  "workerCount exampleOptions exampleConfig [] = 0"
  by (simp add: workerCount_def maxConcurrency_def exampleOptions_def exampleConfig_def
      configuredConcurrency_def normalizeConcurrency_def)

subsection \<open>The retry loops\<close>

lemma tryUpload_error:
  "uploadError (uploadImage w (length (calls r)) path name summary) = Some e \<Longrightarrow>
   tryUpload w path name wikiText summary retries r
     = (Inl e, r\<lparr>calls := calls r @ [UploadCall path name]\<rparr>)"
  by (auto simp: tryUpload_def uploadError_def Let_def split: upload_reply.splits if_splits)

lemma tryEdit_error:
  "editError (editPage w (length (calls r)) title wikiText summary) = Some e \<Longrightarrow>
   tryEdit w title wikiText summary r = (Inl e, r\<lparr>calls := calls r @ [EditCall title wikiText]\<rparr>)"
  by (simp add: tryEdit_def Let_def)


text \<open>When the replies to the next edit calls all make the attempt throw and as many
  attempts are left, the loop makes these calls, sleeps after each but the last, and ends
  by the plain read of the last error's message: a failure with that message, or the
  TypeError of the read.\<close>

lemma editLoop_all_fail:
  "\<forall>i<Suc k. editError (editPage w (length (calls r) + i) title wikiText summary) \<noteq> None \<Longrightarrow>
   attempt + k = retries \<Longrightarrow>
   editLoop w title wikiText summary retries attempt r
     = (case strictMessage (the
               (editError (editPage w (length (calls r) + k) title wikiText summary))) of
          Inr m \<Rightarrow> Inr (EditFailed m)
        | Inl typeError \<Rightarrow> Inl typeError,
        r\<lparr>calls := calls r @ replicate (Suc k) (EditCall title wikiText),
          sleeps := sleeps r @ map (\<lambda>a. 500 * a) [attempt..<retries]\<rparr>)"
proof (induction k arbitrary: attempt r)
  case 0
  then obtain e
    where e: "editError (editPage w (length (calls r)) title wikiText summary) = Some e"
    by fastforce
  from 0 have "attempt = retries"
    by simp
  then show ?case
    by (subst editLoop.simps) (simp add: tryEdit_error [OF e] e split: sum.splits)
next
  case (Suc k)
  from Suc.prems(2) have lt: "attempt < retries"
    by simp
  from Suc.prems(1) obtain e
    where e: "editError (editPage w (length (calls r)) title wikiText summary) = Some e"
    by fastforce
  let ?r2 = "sleep (500 * attempt) (r\<lparr>calls := calls r @ [EditCall title wikiText]\<rparr>)"
  have len: "length (calls ?r2) = Suc (length (calls r))"
    by (simp add: sleep_def)
  have step: "editLoop w title wikiText summary retries attempt r
        = editLoop w title wikiText summary retries (attempt + 1) ?r2"
    using lt by (subst editLoop.simps) (simp add: tryEdit_error [OF e])
  have fails: "\<forall>i<Suc k. editError (editPage w (length (calls ?r2) + i) title wikiText summary) \<noteq> None"
    using Suc.prems(1) by (auto simp only: len add_Suc add_Suc_right [symmetric] Suc_less_eq)
  have att: "attempt + 1 + k = retries"
    using Suc.prems(2) by simp
  have final: "editError (editPage w (length (calls ?r2) + k) title wikiText summary)
        = editError (editPage w (length (calls r) + Suc k) title wikiText summary)"
    by (simp add: sleep_def)
  have cs: "calls ?r2 @ replicate (Suc k) (EditCall title wikiText)
        = calls r @ replicate (Suc (Suc k)) (EditCall title wikiText)"
    by (simp add: sleep_def replicate_app_Cons_same)
  have sl: "sleeps ?r2 @ map (\<lambda>a. 500 * a) [attempt + 1..<retries]
        = sleeps r @ map (\<lambda>a. 500 * a) [attempt..<retries]"
    using lt by (simp add: sleep_def upt_conv_Cons)
  show ?case
    unfolding step Suc.IH [OF fails att] final cs sl
    by (simp add: sleep_def)
qed

subsection \<open>Uploads that fail at every attempt\<close>




subsection \<open>One turn of a worker\<close>

lemma uploadLoop_then_warning:
  "\<forall>i<k. uploadError (uploadImage w (length (calls r) + i) path name summary) \<noteq> None \<Longrightarrow>
   uploadImage w (length (calls r) + k) path name summary = UploadReturned uploadedName \<Longrightarrow>
   attempt + k \<le> retries \<Longrightarrow>
   editFilePage w (js ''File:'' @ name) wikiText summary retries
     (r\<lparr>calls := calls r @ replicate (Suc k) (UploadCall path name),
        sleeps := sleeps r @ map (\<lambda>a. 1000 * a) [attempt..<attempt + k]\<rparr>)
     = (Inr (EditFailed e), r') \<Longrightarrow>
   uploadLoop w path name wikiText summary retries attempt lastError r
     = (ResultUploaded (orElse uploadedName name)
          (Some (js ''Upload OK, but category edit failed: '' @ templateText e)), r')"
proof (induction k arbitrary: attempt lastError r)
  case 0
  from 0(4) have "editFilePage w (js ''File:'' @ name) wikiText summary retries
      (r\<lparr>calls := calls r @ [UploadCall path name]\<rparr>) = (Inr (EditFailed e), r')"
    by simp
  with 0(2,3) show ?case
    by (subst uploadLoop.simps) (simp add: tryUpload_def)
next
  case (Suc k)
  from Suc.prems(3) have lt: "attempt < retries"
    by simp
  from Suc.prems(1) obtain e0
    where e0: "uploadError (uploadImage w (length (calls r)) path name summary) = Some e0"
    by fastforce
  let ?r2 = "sleep (1000 * attempt) (r\<lparr>calls := calls r @ [UploadCall path name]\<rparr>)"
  have len: "length (calls ?r2) = Suc (length (calls r))"
    by (simp add: sleep_def)
  have step: "uploadLoop w path name wikiText summary retries attempt lastError r
        = uploadLoop w path name wikiText summary retries (attempt + 1) (Some e0) ?r2"
    using lt by (subst uploadLoop.simps) (simp add: tryUpload_error [OF e0])
  have fails: "\<forall>i<k. uploadError (uploadImage w (length (calls ?r2) + i) path name summary) \<noteq> None"
    using Suc.prems(1) by (auto simp only: len add_Suc add_Suc_right [symmetric] Suc_less_eq)
  have ok: "uploadImage w (length (calls ?r2) + k) path name summary = UploadReturned uploadedName"
    using Suc.prems(2) by (simp add: sleep_def)
  have att: "attempt + 1 + k \<le> retries"
    using Suc.prems(3) by simp
  have same: "?r2\<lparr>calls := calls ?r2 @ replicate (Suc k) (UploadCall path name),
                 sleeps := sleeps ?r2 @ map (\<lambda>a. 1000 * a) [attempt + 1..<attempt + 1 + k]\<rparr>
        = r\<lparr>calls := calls r @ replicate (Suc (Suc k)) (UploadCall path name),
            sleeps := sleeps r @ map (\<lambda>a. 1000 * a) [attempt..<attempt + Suc k]\<rparr>"
    by (simp add: sleep_def replicate_app_Cons_same upt_conv_Cons)
  have edit: "editFilePage w (js ''File:'' @ name) wikiText summary retries
      (?r2\<lparr>calls := calls ?r2 @ replicate (Suc k) (UploadCall path name),
           sleeps := sleeps ?r2 @ map (\<lambda>a. 1000 * a) [attempt + 1..<attempt + 1 + k]\<rparr>)
        = (Inr (EditFailed e), r')"
    unfolding same by (rule Suc.prems(4))
  show ?case
    unfolding step by (rule Suc.IH [OF fails ok att edit])
qed

text \<open>The result of \<^verbatim>\<open>uploadSingleImage\<close> when the upload goes through at one of the three
  attempts, after \<open>k\<close> attempts that threw, and the three edit calls that follow all
  fail, the last with a value whose message can be read.\<close>

lemma uploadSingleImage_warning:
  assumes "k < 3"
    and "\<forall>i<k. uploadError (uploadImage w (length (calls r) + i) path name summary) \<noteq> None"
    and "uploadImage w (length (calls r) + k) path name summary = UploadReturned uploadedName"
    and "\<forall>j<2. editError (editPage w (length (calls r) + Suc k + j)
            (js ''File:'' @ name) wikiText summary) \<noteq> None"
    and "editError (editPage w (length (calls r) + Suc k + 2)
            (js ''File:'' @ name) wikiText summary) = Some (Thrown m)"
  shows "\<exists>r'. uploadSingleImage w path name wikiText summary 3 r
     = (ResultUploaded (orElse uploadedName name)
          (Some (js ''Upload OK, but category edit failed: '' @ templateText m)), r')"
proof -
  let ?rk = "r\<lparr>calls := calls r @ replicate (Suc k) (UploadCall path name),
               sleeps := sleeps r @ map (\<lambda>a. 1000 * a) [1..<1 + k]\<rparr>"
  have len: "length (calls ?rk) = length (calls r) + Suc k"
    by simp
  have all: "\<forall>j<Suc 2. editError (editPage w (length (calls ?rk) + j) (js ''File:'' @ name)
          wikiText summary) \<noteq> None"
    unfolding len
  proof (intro allI impI)
    fix j :: nat
    assume "j < Suc 2"
    then have "j < 2 \<or> j = 2"
      by auto
    then show "editError (editPage w (length (calls r) + Suc k + j) (js ''File:'' @ name)
          wikiText summary) \<noteq> None"
      using assms(4,5) by auto
  qed
  have last: "strictMessage (the (editError (editPage w (length (calls ?rk) + 2)
          (js ''File:'' @ name) wikiText summary))) = Inr m"
    unfolding len using assms(5) by simp
  have "editLoop w (js ''File:'' @ name) wikiText summary 3 1 ?rk
     = (case strictMessage (the (editError (editPage w (length (calls ?rk) + 2)
               (js ''File:'' @ name) wikiText summary))) of
          Inr m \<Rightarrow> Inr (EditFailed m)
        | Inl typeError \<Rightarrow> Inl typeError,
        ?rk\<lparr>calls := calls ?rk @ replicate (Suc 2) (EditCall (js ''File:'' @ name) wikiText),
            sleeps := sleeps ?rk @ map (\<lambda>a. 500 * a) [1..<3]\<rparr>)"
    using all by (rule editLoop_all_fail) simp
  then obtain r' where edit: "editFilePage w (js ''File:'' @ name) wikiText summary 3 ?rk
     = (Inr (EditFailed m), r')"
    unfolding editFilePage_def last by simp
  have "uploadLoop w path name wikiText summary 3 1 None r
     = (ResultUploaded (orElse uploadedName name)
          (Some (js ''Upload OK, but category edit failed: '' @ templateText m)), r')"
    using assms(2,3) _ edit by (rule uploadLoop_then_warning) (use assms(1) in simp)
  then show ?thesis
    by (simp only: uploadSingleImage_def) blast
qed

text \<open>When every edit throws \<^verbatim>\<open>undefined\<close>, the last \<^verbatim>\<open>catch\<close> of \<^verbatim>\<open>editFilePage\<close> raises a
  TypeError, which \<^verbatim>\<open>uploadSingleImage\<close> takes for a failed attempt: the file is uploaded
  three times and the result is a failure with the message of the TypeError.\<close>

lemma undefined_edit_fails_upload:
  "uploadSingleImage (editUndefinedWiki engineText) path name wikiText summary 3
     \<lparr>calls = [], sleeps = []\<rparr>
   = (ResultFailed (orElse (Some engineText) (js ''Unknown error'')) 3,
      \<lparr>calls = [UploadCall path name, EditCall (js ''File:'' @ name) wikiText,
                EditCall (js ''File:'' @ name) wikiText, EditCall (js ''File:'' @ name) wikiText,
                UploadCall path name, EditCall (js ''File:'' @ name) wikiText,
                EditCall (js ''File:'' @ name) wikiText, EditCall (js ''File:'' @ name) wikiText,
                UploadCall path name, EditCall (js ''File:'' @ name) wikiText,
                EditCall (js ''File:'' @ name) wikiText, EditCall (js ''File:'' @ name) wikiText],
       sleeps = [500, 1000, 1000, 500, 1000, 2000, 500, 1000]\<rparr>)"
  by (simp add: uploadSingleImage_def uploadLoop.simps editLoop.simps editFilePage_def
      tryUpload_def tryEdit_def editError_def editUndefinedWiki_def sleep_def lastErrorText_def)

lemma withTracker_result:
  "withTracker f st = (st\<lparr>tracker := fst (f (tracker st))\<rparr>, snd (f (tracker st)))"
  by (simp add: withTracker_def split: prod.splits)

lemma withLog_result:
  "withLog f st = (st\<lparr>uploadLog := fst (f (uploadLog st))\<rparr>, snd (f (uploadLog st)))"
  by (simp add: withLog_def split: prod.splits)

lemma markCompleted_returns:
  "progressWritable t \<Longrightarrow> snd (markCompleted t name now) = None"
  by (simp add: markCompleted_def save_def Let_def split: option.splits)

lemma markCompleted_throws:
  "data t = Some d \<Longrightarrow> \<not> progressWritable t \<Longrightarrow> snd (markCompleted t name now) = Some IOError"
  by (simp add: markCompleted_def save_def Let_def)

lemma markCompleted_clears:
  "data t = Some d \<Longrightarrow> failuresDistinct t \<Longrightarrow>
   name \<notin> failedNames (fst (markCompleted t name now))"
  by (simp add: failedNames_def failuresDistinct_def getFailedFiles_def data_markCompleted
      names_removeFirst del: set_map)

lemma markCompleted_completes:
  "data t = Some d \<Longrightarrow> name \<in> completedNames (fst (markCompleted t name now))"
  by (simp add: completedNames_def data_markCompleted)

lemma logSuccess_member: "isUploaded (fst (logSuccess l name prefix stamp)) name"
  by (simp add: logSuccess_def appendLog_def isUploaded_def)

lemma emit_fields:
  "remote (emit opts e st) = remote st" "tracker (emit opts e st) = tracker st"
  "uploadLog (emit opts e st) = uploadLog st"
  "completedCount (emit opts e st) = completedCount st"
  "failedCount (emit opts e st) = failedCount st"
  "skippedCount (emit opts e st) = skippedCount st"
  "onProgress opts \<Longrightarrow> events (emit opts e st) = events st @ [e]"
  by (simp_all add: emit_def)

text \<open>The turn of a worker for a name that resolves, is not in the log's membership and is
  not a dry run, once the result of \<^verbatim>\<open>uploadSingleImage\<close> is an upload with a warning.\<close>

lemma processItem_warning:
  assumes rel: "pathMap name = Some rel" "rel \<noteq> []"
    and new: "\<not> isUploaded (uploadLog st) name"
    and live: "\<not> dryRun opts"
    and up: "uploadSingleImage w (pathJoin srcDir rel) (sanitizeFileName name)
               (generateWikiText (extractCategories rel cfg) cfg) (uploadComment cfg) 3 (remote st)
             = (ResultUploaded uploadedName (Some msg), r)"
    and msg: "msg \<noteq> []"
  shows "processItem w pathJoin pathMap srcDir cfg opts clock name st
     = andThen
         (withTracker (\<lambda>t. markCompleted t name (clock 0))
            ((emit opts (EvWarning name msg) ((emit opts (EvUploading name) st)\<lparr>remote := r\<rparr>))
               \<lparr>completedCount := completedCount st + 1\<rparr>))
         (withLog (\<lambda>l. logSuccess l name (wikiPrefixOf cfg) (clock 1)))"
  using rel new live msg
  by (simp add: processItem_def Let_def truthy_def emit_fields up)

text \<open>
  C8, as the code has it. Take an item that resolves to a source path, is not in the
  log's membership and is not a dry run, with an observer installed and a progress file
  that can be written. If the upload goes through at one of the three attempts, after
  \<open>k\<close> attempts that threw, and the three edit calls that follow all fail, the last with
  a value whose message can be read, then the worker reports the item as uploading and
  then as a warning and reports no error; \<^verbatim>\<open>markCompleted\<close> is its one call to the Progress
  Ledger, so the name is in the completed list and, when no name had two failure records,
  has no failure record; \<^verbatim>\<open>logSuccess\<close> is its one call to the Dedup Ledger, so the name is
  in the membership; and the item counts as completed, not as failed or skipped.
\<close>

theorem partial_success_completed:
  assumes "pathMap name = Some rel" and "rel \<noteq> []"
    and "\<not> isUploaded (uploadLog st) name"
    and "\<not> dryRun opts"
    and "onProgress opts"
    and "data (tracker st) = Some d" and "progressWritable (tracker st)"
    and "k < 3"
    and "\<forall>i<k. uploadError (uploadImage w (length (calls (remote st)) + i)
            (pathJoin srcDir rel) (sanitizeFileName name) (uploadComment cfg)) \<noteq> None"
    and "uploadImage w (length (calls (remote st)) + k)
            (pathJoin srcDir rel) (sanitizeFileName name) (uploadComment cfg)
         = UploadReturned uploadedName"
    and "\<forall>j<2. editError (editPage w (length (calls (remote st)) + Suc k + j)
            (js ''File:'' @ sanitizeFileName name)
            (generateWikiText (extractCategories rel cfg) cfg) (uploadComment cfg)) \<noteq> None"
    and "editError (editPage w (length (calls (remote st)) + Suc k + 2)
            (js ''File:'' @ sanitizeFileName name)
            (generateWikiText (extractCategories rel cfg) cfg) (uploadComment cfg))
         = Some (Thrown m)"
  shows "\<exists>st' thrown.
           processItem w pathJoin pathMap srcDir cfg opts clock name st = (st', thrown) \<and>
           events st' = events st @ [EvUploading name,
             EvWarning name (js ''Upload OK, but category edit failed: '' @ templateText m)] \<and>
           tracker st' = fst (markCompleted (tracker st) name (clock 0)) \<and>
           name \<in> completedNames (tracker st') \<and>
           (failuresDistinct (tracker st) \<longrightarrow> name \<notin> failedNames (tracker st')) \<and>
           uploadLog st' = fst (logSuccess (uploadLog st) name (wikiPrefixOf cfg) (clock 1)) \<and>
           isUploaded (uploadLog st') name \<and>
           completedCount st' = completedCount st + 1 \<and>
           failedCount st' = failedCount st \<and>
           skippedCount st' = skippedCount st"
proof -
  let ?path = "pathJoin srcDir rel"
  let ?san = "sanitizeFileName name"
  let ?text = "generateWikiText (extractCategories rel cfg) cfg"
  let ?sum = "uploadComment cfg"
  let ?msg = "js ''Upload OK, but category edit failed: '' @ templateText m"
  from uploadSingleImage_warning [where w = w and path = ?path and name = ?san
      and wikiText = ?text and summary = ?sum and r = "remote st", OF assms(8-12)]
  obtain r' where up: "uploadSingleImage w ?path ?san ?text ?sum 3 (remote st)
     = (ResultUploaded (orElse uploadedName ?san) (Some ?msg), r')"
    by blast
  have msg: "?msg \<noteq> []"
    by (simp add: js_def)
  let ?s1 = "(emit opts (EvWarning name ?msg) ((emit opts (EvUploading name) st)\<lparr>remote := r'\<rparr>))
               \<lparr>completedCount := completedCount st + 1\<rparr>"
  let ?m = "markCompleted (tracker st) name (clock 0)"
  let ?s2 = "?s1\<lparr>tracker := fst ?m\<rparr>"
  let ?l = "logSuccess (uploadLog st) name (wikiPrefixOf cfg) (clock 1)"
  have turn: "processItem w pathJoin pathMap srcDir cfg opts clock name st
     = (?s2\<lparr>uploadLog := fst ?l\<rparr>, snd ?l)"
    unfolding processItem_warning [where pathJoin = pathJoin and srcDir = srcDir and w = w
        and cfg = cfg and pathMap = pathMap and name = name and clock = clock, OF assms(1-4) up msg]
    by (simp add: withTracker_result withLog_result emit_fields
        markCompleted_returns [OF assms(7)])
  have ev: "events (?s2\<lparr>uploadLog := fst ?l\<rparr>) = events st @ [EvUploading name, EvWarning name ?msg]"
    using assms(5) by (simp add: emit_def)
  have tr: "tracker (?s2\<lparr>uploadLog := fst ?l\<rparr>) = fst ?m"
    by simp
  have marked: "name \<in> completedNames (tracker (?s2\<lparr>uploadLog := fst ?l\<rparr>))"
    using markCompleted_completes [OF assms(6)] by simp
  have clear: "failuresDistinct (tracker st) \<longrightarrow>
        name \<notin> failedNames (tracker (?s2\<lparr>uploadLog := fst ?l\<rparr>))"
    using markCompleted_clears [OF assms(6)] by simp
  have lg: "uploadLog (?s2\<lparr>uploadLog := fst ?l\<rparr>) = fst ?l"
    by simp
  have logged: "isUploaded (uploadLog (?s2\<lparr>uploadLog := fst ?l\<rparr>)) name"
    using logSuccess_member by simp
  have counts: "completedCount (?s2\<lparr>uploadLog := fst ?l\<rparr>) = completedCount st + 1
        \<and> failedCount (?s2\<lparr>uploadLog := fst ?l\<rparr>) = failedCount st
        \<and> skippedCount (?s2\<lparr>uploadLog := fst ?l\<rparr>) = skippedCount st"
    by (simp add: emit_fields)
  from turn ev tr marked clear lg logged counts show ?thesis
    by blast
qed

text \<open>
  C3, as the code has it. For a target name that is in the membership of the Dedup Ledger
  and that the path map resolves to a source path, the worker reports a skip, makes no
  call to the remote and sleeps no delay, and calls \<^verbatim>\<open>markCompleted\<close>, so that the name
  is in the completed list whatever the run state held; the log is not written.
\<close>

theorem recorded_name_skipped:
  assumes "isUploaded (uploadLog st) name"
    and "pathMap name = Some rel" and "rel \<noteq> []"
    and "onProgress opts"
    and "data (tracker st) = Some d"
  shows "\<exists>st' thrown.
           processItem w pathJoin pathMap srcDir cfg opts clock name st = (st', thrown) \<and>
           events st' = events st @ [EvSkip name (js ''Already uploaded'')] \<and>
           remote st' = remote st \<and>
           tracker st' = fst (markCompleted (tracker st) name (clock 0)) \<and>
           name \<in> completedNames (tracker st') \<and>
           uploadLog st' = uploadLog st"
proof -
  let ?m = "markCompleted (tracker st) name (clock 0)"
  let ?s1 = "(emit opts (EvSkip name (js ''Already uploaded'')) st)\<lparr>tracker := fst ?m\<rparr>"
  let ?s2 = "?s1\<lparr>skippedCount := skippedCount ?s1 + 1\<rparr>"
  have turn: "processItem w pathJoin pathMap srcDir cfg opts clock name st
     = andThen (?s1, snd ?m) (\<lambda>s. (s\<lparr>skippedCount := skippedCount s + 1\<rparr>, None))"
    using assms(1-3)
    by (simp add: processItem_def Let_def truthy_def withTracker_result emit_fields)
  have ev: "events ?s1 = events st @ [EvSkip name (js ''Already uploaded'')]"
    using assms(4) by (simp add: emit_def)
  have marked: "name \<in> completedNames (tracker ?s1)"
    using markCompleted_completes [OF assms(5)] by simp
  show ?thesis
  proof (cases "snd ?m")
    case None
    with turn have "processItem w pathJoin pathMap srcDir cfg opts clock name st = (?s2, None)"
      by simp
    moreover have "events ?s2 = events st @ [EvSkip name (js ''Already uploaded'')]"
      using ev by simp
    moreover have "name \<in> completedNames (tracker ?s2)"
      using marked by simp
    moreover have "remote ?s2 = remote st \<and> uploadLog ?s2 = uploadLog st
        \<and> tracker ?s2 = fst ?m"
      by (simp add: emit_fields)
    ultimately show ?thesis
      by blast
  next
    case (Some x)
    with turn have "processItem w pathJoin pathMap srcDir cfg opts clock name st = (?s1, Some x)"
      by simp
    moreover have "remote ?s1 = remote st \<and> uploadLog ?s1 = uploadLog st
        \<and> tracker ?s1 = fst ?m"
      by (simp add: emit_fields)
    ultimately show ?thesis
      using ev marked by blast
  qed
qed

lemma pathMapOf_single:
  "pathMapOf [js ''a.png''] (js ''a.png'') = Some (js ''a.png'') \<and>
   pathMapOf [js ''a.png''] (js ''a.png -> dnd5e'') = None"
  by (simp add: pathMapOf_def transformPath_def replaceEach_def js_def)

lemma freshTracker_writable: "progressWritable (freshTracker files)"
  by (simp add: freshTracker_def ProgressTracker_init_def ProgressTracker_new_def save_def)

lemma emptyLog_empty: "uploaded emptyLog = {}"
  by (simp add: emptyLog_def UploadLog_new_def UploadLog_load_def)

theorem partial_success_completed_witness:
  "pathMapOf [js ''a.png''] (js ''a.png'') = Some (js ''a.png'') \<and> js ''a.png'' \<noteq> [] \<and>
   \<not> isUploaded (uploadLog (freshExec [js ''a.png''] emptyLog)) (js ''a.png'') \<and>
   \<not> dryRun exampleOptions \<and> onProgress exampleOptions \<and>
   (\<exists>d. data (tracker (freshExec [js ''a.png''] emptyLog)) = Some d) \<and>
   progressWritable (tracker (freshExec [js ''a.png''] emptyLog)) \<and>
   failuresDistinct (tracker (freshExec [js ''a.png''] emptyLog)) \<and>
   calls (remote (freshExec [js ''a.png''] emptyLog)) = [] \<and>
   uploadImage (editFailingWiki (js ''timeout'')) 0 (joinPlain (js ''images'') (js ''a.png''))
     (sanitizeFileName (js ''a.png'')) (uploadComment exampleConfig) = UploadReturned None \<and>
   editError (editPage (editFailingWiki (js ''timeout'')) 1
     (js ''File:'' @ sanitizeFileName (js ''a.png''))
     (generateWikiText (extractCategories (js ''a.png'') exampleConfig) exampleConfig)
     (uploadComment exampleConfig)) \<noteq> None \<and>
   editError (editPage (editFailingWiki (js ''timeout'')) 2
     (js ''File:'' @ sanitizeFileName (js ''a.png''))
     (generateWikiText (extractCategories (js ''a.png'') exampleConfig) exampleConfig)
     (uploadComment exampleConfig)) \<noteq> None \<and>
   editError (editPage (editFailingWiki (js ''timeout'')) 3
     (js ''File:'' @ sanitizeFileName (js ''a.png''))
     (generateWikiText (extractCategories (js ''a.png'') exampleConfig) exampleConfig)
     (uploadComment exampleConfig)) = Some (Thrown (Some (js ''timeout''))) \<and>
   (\<exists>st' thrown.
      processItem (editFailingWiki (js ''timeout'')) joinPlain (pathMapOf [js ''a.png''])
        (js ''images'') exampleConfig exampleOptions exampleClock (js ''a.png'')
        (freshExec [js ''a.png''] emptyLog) = (st', thrown) \<and>
      events st' = [EvUploading (js ''a.png''),
         EvWarning (js ''a.png'') (js ''Upload OK, but category edit failed: timeout'')] \<and>
      js ''a.png'' \<in> completedNames (tracker st') \<and>
      js ''a.png'' \<notin> failedNames (tracker st') \<and>
      isUploaded (uploadLog st') (js ''a.png'') \<and>
      completedCount st' = 1 \<and> failedCount st' = 0)"
proof -
  let ?st = "freshExec [js ''a.png''] emptyLog"
  let ?w = "editFailingWiki (js ''timeout'')"
  let ?title = "js ''File:'' @ sanitizeFileName (js ''a.png'')"
  let ?text = "generateWikiText (extractCategories (js ''a.png'') exampleConfig) exampleConfig"
  have h1: "pathMapOf [js ''a.png''] (js ''a.png'') = Some (js ''a.png'')"
    by (simp add: pathMapOf_single)
  have h2: "js ''a.png'' \<noteq> []"
    by (simp add: js_def)
  have h3: "\<not> isUploaded (uploadLog ?st) (js ''a.png'')"
    by (simp add: freshExec_def isUploaded_def emptyLog_empty)
  have h4: "\<not> dryRun exampleOptions"
    by (simp add: exampleOptions_def)
  have h5: "onProgress exampleOptions"
    by (simp add: exampleOptions_def)
  have h6: "data (tracker ?st) = Some
     \<lparr>taskId = take 14 (filter (\<lambda>c. c \<notin> set (js ''-:T.Z'')) exampleTime),
      sourceDir = js ''images'', startTime = exampleTime, totalFiles = length [js ''a.png''],
      pendingFiles = [js ''a.png''], completed = [], failed = [], lastUpdated = exampleTime\<rparr>"
    by (simp only: freshExec_def exec.simps data_freshTracker)
  have h7: "progressWritable (tracker ?st)"
    by (simp add: freshExec_def freshTracker_writable)
  have fd: "failuresDistinct (tracker ?st)"
    by (simp add: failuresDistinct_def getFailedFiles_def h6)
  have h8: "(0::nat) < 3"
    by simp
  have c0: "calls (remote ?st) = []"
    by (simp add: freshExec_def)
  have up0: "uploadImage ?w 0 (joinPlain (js ''images'') (js ''a.png''))
     (sanitizeFileName (js ''a.png'')) (uploadComment exampleConfig) = UploadReturned None"
    by (simp add: editFailingWiki_def)
  have ed: "editError (editPage ?w i ?title ?text (uploadComment exampleConfig))
     = Some (Thrown (Some (js ''timeout'')))" for i
    by (simp add: editFailingWiki_def editError_def)
  have h9: "\<forall>i<0. uploadError (uploadImage ?w (length (calls (remote ?st)) + i)
            (joinPlain (js ''images'') (js ''a.png'')) (sanitizeFileName (js ''a.png''))
            (uploadComment exampleConfig)) \<noteq> None"
    by simp
  have h10: "uploadImage ?w (length (calls (remote ?st)) + 0)
            (joinPlain (js ''images'') (js ''a.png'')) (sanitizeFileName (js ''a.png''))
            (uploadComment exampleConfig) = UploadReturned None"
    by (simp add: editFailingWiki_def)
  have h11: "\<forall>j<2. editError (editPage ?w (length (calls (remote ?st)) + Suc 0 + j)
            ?title ?text (uploadComment exampleConfig)) \<noteq> None"
    by (simp add: ed)
  have h12: "editError (editPage ?w (length (calls (remote ?st)) + Suc 0 + 2)
            ?title ?text (uploadComment exampleConfig)) = Some (Thrown (Some (js ''timeout'')))"
    by (rule ed)
  have wording: "js ''Upload OK, but category edit failed: '' @ templateText (Some (js ''timeout''))
     = js ''Upload OK, but category edit failed: timeout''"
    by (simp add: templateText_def js_def)
  have ini: "events ?st = [] \<and> completedCount ?st = 0 \<and> failedCount ?st = 0"
    by (simp add: freshExec_def)
  from partial_success_completed [where pathMap = "pathMapOf [js ''a.png'']" and name = "js ''a.png''"
      and pathJoin = joinPlain and srcDir = "js ''images''" and w = ?w and cfg = exampleConfig
      and clock = exampleClock, OF h1 h2 h3 h4 h5 h6 h7 h8 h9 h10 h11 h12]
  have "\<exists>st' thrown.
      processItem ?w joinPlain (pathMapOf [js ''a.png'']) (js ''images'') exampleConfig
        exampleOptions exampleClock (js ''a.png'') ?st = (st', thrown) \<and>
      events st' = [EvUploading (js ''a.png''),
         EvWarning (js ''a.png'') (js ''Upload OK, but category edit failed: timeout'')] \<and>
      js ''a.png'' \<in> completedNames (tracker st') \<and>
      js ''a.png'' \<notin> failedNames (tracker st') \<and>
      isUploaded (uploadLog st') (js ''a.png'') \<and>
      completedCount st' = 1 \<and> failedCount st' = 0"
    using fd unfolding wording by (simp add: ini) blast
  with h1 h2 h3 h4 h5 h6 h7 fd c0 up0 ed [of 1] ed [of 2] ed [of 3] show ?thesis
    by blast
qed

text \<open>The same item when the progress file cannot be written: the worker reports the
  warning, \<^verbatim>\<open>markCompleted\<close> throws at its save, the turn ends there, and the name is not in
  the membership of the Dedup Ledger.\<close>

theorem unwritable_progress_counterexample:
  "uploadImage (editFailingWiki (js ''timeout'')) 0 (joinPlain (js ''images'') (js ''a.png''))
     (sanitizeFileName (js ''a.png'')) (uploadComment exampleConfig) = UploadReturned None \<and>
   editError (editPage (editFailingWiki (js ''timeout'')) 3
     (js ''File:'' @ sanitizeFileName (js ''a.png''))
     (generateWikiText (extractCategories (js ''a.png'') exampleConfig) exampleConfig)
     (uploadComment exampleConfig)) = Some (Thrown (Some (js ''timeout''))) \<and>
   events (fst (processItem (editFailingWiki (js ''timeout'')) joinPlain (pathMapOf [js ''a.png''])
      (js ''images'') exampleConfig exampleOptions exampleClock (js ''a.png'')
      (readOnlyExec [js ''a.png''] emptyLog)))
     = [EvUploading (js ''a.png''),
        EvWarning (js ''a.png'') (js ''Upload OK, but category edit failed: timeout'')] \<and>
   snd (processItem (editFailingWiki (js ''timeout'')) joinPlain (pathMapOf [js ''a.png''])
      (js ''images'') exampleConfig exampleOptions exampleClock (js ''a.png'')
      (readOnlyExec [js ''a.png''] emptyLog)) = Some IOError \<and>
   \<not> isUploaded (uploadLog (fst (processItem (editFailingWiki (js ''timeout'')) joinPlain
      (pathMapOf [js ''a.png'']) (js ''images'') exampleConfig exampleOptions exampleClock
      (js ''a.png'') (readOnlyExec [js ''a.png''] emptyLog)))) (js ''a.png'')"
proof -
  let ?st = "readOnlyExec [js ''a.png''] emptyLog"
  let ?w = "editFailingWiki (js ''timeout'')"
  let ?path = "joinPlain (js ''images'') (js ''a.png'')"
  let ?san = "sanitizeFileName (js ''a.png'')"
  let ?title = "js ''File:'' @ ?san"
  let ?text = "generateWikiText (extractCategories (js ''a.png'') exampleConfig) exampleConfig"
  let ?sum = "uploadComment exampleConfig"
  let ?msg = "js ''Upload OK, but category edit failed: timeout''"
  have h1: "pathMapOf [js ''a.png''] (js ''a.png'') = Some (js ''a.png'')"
    by (simp add: pathMapOf_single)
  have h2: "js ''a.png'' \<noteq> []"
    by (simp add: js_def)
  have h3: "\<not> isUploaded (uploadLog ?st) (js ''a.png'')"
    by (simp add: readOnlyExec_def freshExec_def isUploaded_def emptyLog_empty)
  have h4: "\<not> dryRun exampleOptions"
    by (simp add: exampleOptions_def)
  have obs: "onProgress exampleOptions"
    by (simp add: exampleOptions_def)
  have d: "data (tracker ?st) = Some
     \<lparr>taskId = take 14 (filter (\<lambda>c. c \<notin> set (js ''-:T.Z'')) exampleTime),
      sourceDir = js ''images'', startTime = exampleTime, totalFiles = length [js ''a.png''],
      pendingFiles = [js ''a.png''], completed = [], failed = [], lastUpdated = exampleTime\<rparr>"
    by (simp add: readOnlyExec_def data_freshTracker)
  have ro: "\<not> progressWritable (tracker ?st)"
    by (simp add: readOnlyExec_def)
  have re: "remote ?st = \<lparr>calls = [], sleeps = []\<rparr>" and ev0: "events ?st = []"
    by (simp_all add: readOnlyExec_def freshExec_def)
  have up0: "uploadImage ?w 0 ?path ?san ?sum = UploadReturned None"
    by (simp add: editFailingWiki_def)
  have ed: "editError (editPage ?w i ?title ?text ?sum) = Some (Thrown (Some (js ''timeout'')))" for i
    by (simp add: editFailingWiki_def editError_def)
  have wording: "js ''Upload OK, but category edit failed: '' @ templateText (Some (js ''timeout''))
     = ?msg"
    by (simp add: templateText_def js_def)
  have "\<exists>r'. uploadSingleImage ?w ?path ?san ?text ?sum 3 (remote ?st)
     = (ResultUploaded (orElse None ?san)
          (Some (js ''Upload OK, but category edit failed: '' @ templateText (Some (js ''timeout'')))),
        r')"
    by (rule uploadSingleImage_warning [where k = 0]) (simp_all add: up0 ed re)
  then obtain r' where up: "uploadSingleImage ?w ?path ?san ?text ?sum 3 (remote ?st)
     = (ResultUploaded (orElse None ?san) (Some ?msg), r')"
    unfolding wording by blast
  have msg: "?msg \<noteq> []"
    by (simp add: js_def)
  have turn: "processItem ?w joinPlain (pathMapOf [js ''a.png'']) (js ''images'') exampleConfig
      exampleOptions exampleClock (js ''a.png'') ?st
     = (((emit exampleOptions (EvWarning (js ''a.png'') ?msg)
           ((emit exampleOptions (EvUploading (js ''a.png'')) ?st)\<lparr>remote := r'\<rparr>))
          \<lparr>completedCount := completedCount ?st + 1\<rparr>)
          \<lparr>tracker := fst (markCompleted (tracker ?st) (js ''a.png'') (exampleClock 0))\<rparr>,
        Some IOError)"
    unfolding processItem_warning [where pathJoin = joinPlain and srcDir = "js ''images''"
        and w = ?w and cfg = exampleConfig and pathMap = "pathMapOf [js ''a.png'']"
        and name = "js ''a.png''" and clock = exampleClock, OF h1 h2 h3 h4 up msg]
    by (simp add: withTracker_result emit_fields markCompleted_throws [OF d ro])
  show ?thesis
    unfolding turn using h3 obs
    by (simp add: up0 ed emit_def ev0)
qed

theorem recorded_name_skipped_witness:
  "isUploaded (uploadLog (freshExec [js ''a.png'']
      (fst (logSuccess emptyLog (js ''a.png'') (js ''dnd5e'') exampleTime)))) (js ''a.png'') \<and>
   pathMapOf [js ''a.png''] (js ''a.png'') = Some (js ''a.png'') \<and> js ''a.png'' \<noteq> [] \<and>
   onProgress exampleOptions \<and>
   (\<exists>d. data (tracker (freshExec [js ''a.png'']
      (fst (logSuccess emptyLog (js ''a.png'') (js ''dnd5e'') exampleTime)))) = Some d) \<and>
   (\<exists>st' thrown.
      processItem (uploadFailingWiki (js ''timeout'')) joinPlain (pathMapOf [js ''a.png''])
        (js ''images'') exampleConfig exampleOptions exampleClock (js ''a.png'')
        (freshExec [js ''a.png'']
           (fst (logSuccess emptyLog (js ''a.png'') (js ''dnd5e'') exampleTime))) = (st', thrown) \<and>
      events st' = [EvSkip (js ''a.png'') (js ''Already uploaded'')] \<and>
      calls (remote st') = [] \<and>
      js ''a.png'' \<in> completedNames (tracker st'))"
proof -
  let ?l = "fst (logSuccess emptyLog (js ''a.png'') (js ''dnd5e'') exampleTime)"
  let ?st = "freshExec [js ''a.png''] ?l"
  have h1: "isUploaded (uploadLog ?st) (js ''a.png'')"
    by (simp add: freshExec_def logSuccess_member)
  have h2: "pathMapOf [js ''a.png''] (js ''a.png'') = Some (js ''a.png'')"
    by (simp add: pathMapOf_single)
  have h3: "js ''a.png'' \<noteq> []"
    by (simp add: js_def)
  have h4: "onProgress exampleOptions"
    by (simp add: exampleOptions_def)
  have h5: "data (tracker ?st) = Some
     \<lparr>taskId = take 14 (filter (\<lambda>c. c \<notin> set (js ''-:T.Z'')) exampleTime),
      sourceDir = js ''images'', startTime = exampleTime, totalFiles = length [js ''a.png''],
      pendingFiles = [js ''a.png''], completed = [], failed = [], lastUpdated = exampleTime\<rparr>"
    by (simp only: freshExec_def exec.simps data_freshTracker)
  have ev: "events ?st = []" and re: "remote ?st = \<lparr>calls = [], sleeps = []\<rparr>"
    by (simp_all add: freshExec_def)
  from recorded_name_skipped [where pathMap = "pathMapOf [js ''a.png'']" and name = "js ''a.png''"
      and pathJoin = joinPlain and srcDir = "js ''images''" and w = "uploadFailingWiki (js ''timeout'')"
      and cfg = exampleConfig and clock = exampleClock, OF h1 h2 h3 h4 h5]
  obtain st' thrown where
    "processItem (uploadFailingWiki (js ''timeout'')) joinPlain (pathMapOf [js ''a.png''])
        (js ''images'') exampleConfig exampleOptions exampleClock (js ''a.png'') ?st = (st', thrown)"
    "events st' = events ?st @ [EvSkip (js ''a.png'') (js ''Already uploaded'')]"
    "remote st' = remote ?st"
    "js ''a.png'' \<in> completedNames (tracker st')"
    by blast
  then have "processItem (uploadFailingWiki (js ''timeout'')) joinPlain (pathMapOf [js ''a.png''])
        (js ''images'') exampleConfig exampleOptions exampleClock (js ''a.png'') ?st = (st', thrown) \<and>
      events st' = [EvSkip (js ''a.png'') (js ''Already uploaded'')] \<and>
      calls (remote st') = [] \<and>
      js ''a.png'' \<in> completedNames (tracker st')"
    by (simp add: ev re)
  with h1 h2 h3 h4 h5 show ?thesis
    by blast
qed

text \<open>The turn of a worker for a name that the path map does not resolve.\<close>

lemma processItem_not_found:
  assumes "\<not> truthy (pathMap name)" and "onProgress opts"
  shows "events (fst (processItem w pathJoin pathMap srcDir cfg opts clock name st))
           = events st @ [EvError name (js ''Source file not found'')] \<and>
         tracker (fst (processItem w pathJoin pathMap srcDir cfg opts clock name st))
           = fst (markFailed (tracker st) name (js ''Source file not found'') 1 (clock 0)) \<and>
         remote (fst (processItem w pathJoin pathMap srcDir cfg opts clock name st)) = remote st"
proof -
  let ?m = "markFailed (tracker st) name (js ''Source file not found'') 1 (clock 0)"
  let ?l = "logFailed (uploadLog st) name (js ''Source file not found'') (clock 1)"
  let ?s1 = "(emit opts (EvError name (js ''Source file not found'')) st)\<lparr>tracker := fst ?m\<rparr>"
  have turn: "processItem w pathJoin pathMap srcDir cfg opts clock name st
     = andThen (andThen (?s1, snd ?m)
         (withLog (\<lambda>l. logFailed l name (js ''Source file not found'') (clock 1))))
         (\<lambda>s. (s\<lparr>failedCount := failedCount s + 1\<rparr>, None))"
    using assms(1) by (simp add: processItem_def Let_def withTracker_result emit_fields)
  show ?thesis
  proof (cases "snd ?m")
    case (Some x)
    with turn assms(2) show ?thesis
      by (simp add: emit_def)
  next
    case None
    show ?thesis
    proof (cases "snd ?l")
      case (Some x)
      with turn None assms(2) show ?thesis
        by (simp add: withLog_result emit_def)
    next
      case logged: None
      with turn None assms(2) show ?thesis
        by (simp add: withLog_result emit_def)
    qed
  qed
qed

text \<open>A name that is in the membership after \<^verbatim>\<open>load\<close> and that the path map does not
  resolve: the worker reports an error, not a skip, and marks the name failed, not
  completed.\<close>

theorem unresolved_name_counterexample:
  "isUploaded (reloadedLog (js ''a.png'') (js ''dnd5e'')) (js ''a.png -> dnd5e'') \<and>
   events (fst (processItem (uploadFailingWiki (js ''timeout'')) joinPlain (pathMapOf [js ''a.png''])
      (js ''images'') exampleConfig exampleOptions exampleClock (js ''a.png -> dnd5e'')
      (freshExec [js ''a.png -> dnd5e''] (reloadedLog (js ''a.png'') (js ''dnd5e'')))))
     = [EvError (js ''a.png -> dnd5e'') (js ''Source file not found'')] \<and>
   js ''a.png -> dnd5e'' \<notin> completedNames (tracker (fst (processItem
      (uploadFailingWiki (js ''timeout'')) joinPlain (pathMapOf [js ''a.png''])
      (js ''images'') exampleConfig exampleOptions exampleClock (js ''a.png -> dnd5e'')
      (freshExec [js ''a.png -> dnd5e''] (reloadedLog (js ''a.png'') (js ''dnd5e''))))))"
proof -
  let ?n = "js ''a.png -> dnd5e''"
  let ?st = "freshExec [?n] (reloadedLog (js ''a.png'') (js ''dnd5e''))"
  have member: "isUploaded (reloadedLog (js ''a.png'') (js ''dnd5e'')) ?n"
    by (simp add: isUploaded_def uploaded_reloadedLog)
  have nf: "\<not> truthy (pathMapOf [js ''a.png''] ?n)"
    by (simp add: pathMapOf_single truthy_def)
  have obs: "onProgress exampleOptions"
    by (simp add: exampleOptions_def)
  have d: "data (tracker ?st) = Some
     \<lparr>taskId = take 14 (filter (\<lambda>c. c \<notin> set (js ''-:T.Z'')) exampleTime),
      sourceDir = js ''images'', startTime = exampleTime, totalFiles = length [?n],
      pendingFiles = [?n], completed = [], failed = [], lastUpdated = exampleTime\<rparr>"
    by (simp only: freshExec_def exec.simps data_freshTracker)
  have "completedNames (fst (markFailed (tracker ?st) ?n (js ''Source file not found'') 1
          (exampleClock 0))) = {}"
    by (simp add: completedNames_def data_markFailed [OF d])
  moreover have "events ?st = []"
    by (simp add: freshExec_def)
  ultimately show ?thesis
    using member processItem_not_found [where pathMap = "pathMapOf [js ''a.png'']" and name = ?n
        and w = "uploadFailingWiki (js ''timeout'')" and pathJoin = joinPlain
        and srcDir = "js ''images''" and cfg = exampleConfig and clock = exampleClock
        and st = ?st, OF nf obs]
    by simp
qed

end
